theory Spec2Isabelle
  imports
    Main
    "HOL-Library.AList"
    "HOL-Library.Multiset"
    "HOL-Library.Product_Lexorder"
    "HOL-Library.List_Lexorder"
begin

section \<open>JavaScript values as the handlers see them\<close>

text \<open>
  The route handlers receive a JSON body and hand its fields to the adapters untyped
  (\<^verbatim>\<open>data: any\<close>, \<^verbatim>\<open>document: any\<close>). The model carries the scalar JavaScript
  values. A number is a double: \<open>Num n\<close> is the integral number of value \<open>n\<close> (an \<open>n\<close>
  that is no double stands for the double nearest to it), \<open>NaN\<close>, \<open>PosInfinity\<close> and
  \<open>NegInfinity\<close> are the three values that are no integers, and negative zero is not told
  from zero. \<open>ObjectId n\<close> is the driver's 12-byte identifier read as a number below
  \<open>2^96\<close>. A string is the list of its bytes in UTF-8. Fractional numbers and arrays or
  objects nested as field values are not modelled.
\<close>

datatype jsval =
    Undefined
  | Null
  | Bool bool
  | Num int
  | NaN
  | PosInfinity
  | NegInfinity
  | Str string
  | ObjectId nat

type_synonym doc = "(string \<times> jsval) list"

text \<open>The truthiness test behind \<^verbatim>\<open>!name\<close>, \<^verbatim>\<open>!email\<close>, \<^verbatim>\<open>!age\<close> and \<^verbatim>\<open>!id\<close>.\<close>

fun truthy :: "jsval \<Rightarrow> bool" where
  "truthy Undefined = False"
| "truthy Null = False"
| "truthy (Bool b) = b"
| "truthy (Num n) = (n \<noteq> 0)"
| "truthy NaN = False"
| "truthy PosInfinity = True"
| "truthy NegInfinity = True"
| "truthy (Str s) = (s \<noteq> [])"
| "truthy (ObjectId n) = True"

text \<open>Property lookup on an object: an absent key reads as \<^verbatim>\<open>undefined\<close>.\<close>

definition field :: "doc \<Rightarrow> string \<Rightarrow> jsval" where
  "field d k = (case map_of d k of None \<Rightarrow> Undefined | Some v \<Rightarrow> v)"

subsection \<open>Digits\<close>

definition digit_char :: "nat \<Rightarrow> char" where
  "digit_char d = (if d < 10 then char_of (48 + d) else char_of (87 + d))"

fun show_radix :: "nat \<Rightarrow> nat \<Rightarrow> string" where
  "show_radix r n =
     (if r < 2 \<or> n < r then [digit_char n]
      else show_radix r (n div r) @ [digit_char (n mod r)])"

declare show_radix.simps [simp del]

text \<open>An ObjectId prints as 24 hexadecimal digits, padded with zeros on the left.\<close>

definition toHexString :: "nat \<Rightarrow> string" where
  "toHexString n = (let h = show_radix 16 n in replicate (24 - length h) CHR ''0'' @ h)"

text \<open>The decimal digits of an integer that is not negative.\<close>

function decimal :: "int \<Rightarrow> string" where
  "decimal n =
     (if n < 10 then [digit_char (nat n)]
      else decimal (n div 10) @ [digit_char (nat (n mod 10))])"
  by pat_completeness auto
termination
  by (relation "measure nat") auto

declare decimal.simps [simp del]

definition digit_val :: "char \<Rightarrow> nat option" where
  "digit_val c =
     (let k = (of_char c :: nat) in
      if 48 \<le> k \<and> k \<le> 57 then Some (k - 48)
      else if 97 \<le> k \<and> k \<le> 102 then Some (k - 87)
      else if 65 \<le> k \<and> k \<le> 70 then Some (k - 55)
      else None)"

definition is_digit :: "nat \<Rightarrow> char \<Rightarrow> bool" where
  "is_digit r c = (case digit_val c of None \<Rightarrow> False | Some d \<Rightarrow> d < r)"

definition digits_value :: "nat \<Rightarrow> string \<Rightarrow> nat" where
  "digits_value r ds =
     foldl (\<lambda>acc c. acc * r + (case digit_val c of None \<Rightarrow> 0 | Some d \<Rightarrow> d)) 0 ds"

definition digits_int :: "nat \<Rightarrow> string \<Rightarrow> int" where
  "digits_int r ds =
     foldl (\<lambda>acc c. acc * int r + (case digit_val c of None \<Rightarrow> 0 | Some d \<Rightarrow> int d)) 0 ds"

subsection \<open>Integers as doubles\<close>

function bit_length :: "int \<Rightarrow> nat" where
  "bit_length n = (if n \<le> 0 then 0 else Suc (bit_length (n div 2)))"
  by pat_completeness auto
termination
  by (relation "measure nat") auto

declare bit_length.simps [simp del]

text \<open>
  The double nearest to an integer that is not negative, ties going to the even
  significand of 53 bits; \<open>None\<close> when the result is beyond the largest double, which
  makes the number an infinity.
\<close>

definition round_to_double :: "int \<Rightarrow> int option" where
  "round_to_double m =
     (if m < 9007199254740992 then Some m
      else if 1024 < bit_length m then None
      else
        let e = bit_length m - 53;
            q = m div 2 ^ e;
            r = m mod 2 ^ e;
            h = 2 ^ (e - 1);
            q' = (if h < r \<or> (r = h \<and> odd q) then q + 1 else q)
        in if 1024 < bit_length q' + e then None else Some (q' * 2 ^ e))"

text \<open>The number a sign and a magnitude denote.\<close>

definition to_number :: "bool \<Rightarrow> int \<Rightarrow> jsval" where
  "to_number neg m =
     (case round_to_double m of
        None \<Rightarrow> if neg then NegInfinity else PosInfinity
      | Some v \<Rightarrow> Num (if neg then - v else v))"

text \<open>
  The text of a number has as few significant digits as still read back as the same
  double; of several such digit strings the one nearest to the number is taken, the even
  one on a tie. \<open>candidates v k\<close> are the two numbers of \<open>k\<close> significant digits around
  \<open>v\<close>, and \<open>shortest v\<close> is the number whose digits are printed for the double \<open>v\<close>.
\<close>

definition candidates :: "int \<Rightarrow> nat \<Rightarrow> int \<times> int" where
  "candidates v k =
     (let p = length (decimal v) - k;
          lo = (v div 10 ^ p) * 10 ^ p
      in (lo, lo + 10 ^ p))"

definition reads_as :: "int \<Rightarrow> int \<Rightarrow> bool" where
  "reads_as v c = (round_to_double c = Some v)"

definition shortest :: "int \<Rightarrow> int" where
  "shortest v =
     (if v < 9007199254740992 then v
      else
        case find (\<lambda>k. reads_as v (fst (candidates v k)) \<or> reads_as v (snd (candidates v k)))
               [1 ..< Suc (length (decimal v))] of
          None \<Rightarrow> v
        | Some k \<Rightarrow>
            let (lo, hi) = candidates v k in
            if \<not> reads_as v hi then lo
            else if \<not> reads_as v lo then hi
            else if v - lo < hi - v then lo
            else if hi - v < v - lo then hi
            else if even (lo div 10 ^ (length (decimal v) - k)) then lo
            else hi)"

text \<open>From \<open>10^21\<close> on a number is printed with an exponent: \<^verbatim>\<open>1e+21\<close>, \<^verbatim>\<open>1.5e+21\<close>.\<close>

definition exponent_text :: "int \<Rightarrow> string" where
  "exponent_text v =
     (let ds = decimal (shortest v);
          s = rev (dropWhile (\<lambda>c. c = CHR ''0'') (rev ds))
      in take 1 s @ (if length s \<le> 1 then [] else CHR ''.'' # drop 1 s)
         @ ''e+'' @ show_radix 10 (length ds - 1))"

definition number_text :: "int \<Rightarrow> string" where
  "number_text n =
     (case round_to_double \<bar>n\<bar> of
        None \<Rightarrow> if n < 0 then ''-Infinity'' else ''Infinity''
      | Some v \<Rightarrow>
          (if n < 0 then ''-'' else [])
          @ (if v < 1000000000000000000000 then decimal (shortest v) else exponent_text v))"

subsection \<open>Number to text and back\<close>

text \<open>\<^verbatim>\<open>ToString\<close>, which \<^verbatim>\<open>Number.parseInt\<close> applies to its argument first.\<close>

fun to_string :: "jsval \<Rightarrow> string" where
  "to_string Undefined = ''undefined''"
| "to_string Null = ''null''"
| "to_string (Bool b) = (if b then ''true'' else ''false'')"
| "to_string (Num n) = number_text n"
| "to_string NaN = ''NaN''"
| "to_string PosInfinity = ''Infinity''"
| "to_string NegInfinity = ''-Infinity''"
| "to_string (Str s) = s"
| "to_string (ObjectId n) = toHexString n"

text \<open>
  The white space \<^verbatim>\<open>parseInt\<close> skips, in bytes: the six ASCII blanks, U+00A0, U+1680,
  U+2000 to U+200A, U+2028, U+2029, U+202F, U+205F, U+3000 and U+FEFF. \<open>space_width\<close> is
  the number of bytes of the white space character a byte string starts with, 0 if it
  starts with none.
\<close>

definition space3 :: "nat list \<Rightarrow> bool" where
  "space3 t =
     (t \<in> {[225, 154, 128], [226, 128, 168], [226, 128, 169], [226, 128, 175],
            [226, 129, 159], [227, 128, 128], [239, 187, 191]}
      \<or> (length t = 3 \<and> take 2 t = [226, 128] \<and> 128 \<le> last t \<and> last t \<le> 138))"

definition space_width :: "nat list \<Rightarrow> nat" where
  "space_width bs =
     (if take 1 bs \<in> {[9], [10], [11], [12], [13], [32]} then 1
      else if take 2 bs = [194, 160] then 2
      else if space3 (take 3 bs) then 3
      else 0)"

fun skip_space :: "string \<Rightarrow> string" where
  "skip_space [] = []"
| "skip_space (c # cs) =
     (if space_width (map of_char (c # cs)) = 0 then c # cs
      else skip_space (drop (space_width (map of_char (c # cs)) - 1) cs))"

definition strip_sign :: "string \<Rightarrow> bool \<times> string" where
  "strip_sign s =
     (case s of
        [] \<Rightarrow> (False, [])
      | c # cs \<Rightarrow>
          if c = CHR ''-'' then (True, cs)
          else if c = CHR ''+'' then (False, cs)
          else (False, s))"

definition strip_radix :: "string \<Rightarrow> nat \<times> string" where
  "strip_radix s =
     (if take 2 s = ''0x'' \<or> take 2 s = ''0X'' then (16, drop 2 s) else (10, s))"

text \<open>
  \<^verbatim>\<open>Number.parseInt(v)\<close> with no radix: skip white space, read a sign, switch to radix 16
  after a \<^verbatim>\<open>0x\<close> prefix, read the longest run of digits; no digit at all gives NaN, and
  the digits give the double nearest to the integer they denote. (Past the 20th decimal
  digit the language leaves the rounding to the engine; the model rounds correctly.)
\<close>

definition parseInt :: "jsval \<Rightarrow> jsval" where
  "parseInt v =
     (let (neg, s1) = strip_sign (skip_space (to_string v));
          (r, s2) = strip_radix s1;
          ds = takeWhile (is_digit r) s2
      in if ds = [] then NaN else to_number neg (digits_int r ds))"

text \<open>
  What \<^verbatim>\<open>JSON.stringify\<close> makes of a value on its way to the hosted service: NaN and the
  infinities are sent as \<^verbatim>\<open>null\<close>, an ObjectId as its hexadecimal text.
\<close>

fun json_of :: "jsval \<Rightarrow> jsval" where
  "json_of NaN = Null"
| "json_of PosInfinity = Null"
| "json_of NegInfinity = Null"
| "json_of (ObjectId n) = Str (toHexString n)"
| "json_of v = v"

section \<open>Errors\<close>

datatype pg_error =
    ConnectionFailure
  | UndefinedTable string
  | InvalidTextRepresentation
  | NumericValueOutOfRange
  | NotNullViolation string
  | CheckViolation string
  | UniqueViolation string

fun is_constraint_error :: "pg_error \<Rightarrow> bool" where
  "is_constraint_error (NotNullViolation c) = True"
| "is_constraint_error (CheckViolation c) = True"
| "is_constraint_error (UniqueViolation c) = True"
| "is_constraint_error e = False"

datatype mongo_error =
    ServerSelectionError
  | NetworkError
  | BSONError
  | DuplicateKey
  | ImmutableField

text \<open>Everything a handler's \<^verbatim>\<open>catch\<close> block can receive.\<close>

datatype thrown =
    SyntaxError
  | TypeError
  | PostgrestError pg_error
  | MongoError mongo_error

section \<open>The relational store\<close>

text \<open>
  The hosted PostgreSQL table, as the creation script declares it:
  \<^verbatim>\<open>id BIGINT PRIMARY KEY GENERATED ALWAYS AS IDENTITY\<close>,
  \<^verbatim>\<open>name TEXT NOT NULL\<close>, \<^verbatim>\<open>email TEXT NOT NULL UNIQUE\<close>,
  \<^verbatim>\<open>age INTEGER NOT NULL CHECK (age > 0 AND age < 150)\<close>,
  \<^verbatim>\<open>created_at\<close> and \<^verbatim>\<open>updated_at TIMESTAMP WITH TIME ZONE DEFAULT NOW()\<close> (nullable).
  Timestamps are integers (microseconds). \<open>seq\<close> is the last value the identity sequence
  gave out; \<open>supabase_calls\<close> counts the adapter methods entered so far.
\<close>

record row =
  row_id :: int
  row_name :: string
  row_email :: string
  row_age :: int
  created_at :: "int option"
  updated_at :: "int option"

record pg =
  rows :: "row list"
  seq :: int
  supabase_calls :: nat

text \<open>The \<^verbatim>\<open>{ data, error }\<close> pair every call of the hosted client resolves to.\<close>

record 'a postgrest_response =
  data :: "'a option"
  error :: "pg_error option"

definition pg_ok :: "'a \<Rightarrow> 'a postgrest_response" where
  "pg_ok x = \<lparr>data = Some x, error = None\<rparr>"

definition pg_fail :: "pg_error \<Rightarrow> 'a postgrest_response" where
  "pg_fail e = \<lparr>data = None, error = Some e\<rparr>"

text \<open>
  The record the create route passes to \<^verbatim>\<open>insert\<close>: \<^verbatim>\<open>{ name, email, age }\<close>.
  The adapter is modelled at this shape, the one its only caller builds.
\<close>

datatype new_user = NewUser (nu_name: jsval) (nu_email: jsval) (nu_age: jsval)

text \<open>The ASCII blanks.\<close>

definition is_space :: "char \<Rightarrow> bool" where
  "is_space c = ((of_char c :: nat) \<in> {9, 10, 11, 12, 13, 32})"

text \<open>
  Integer input of the store: optional surrounding ASCII blanks, an optional sign, decimal
  digits. Used for the \<^verbatim>\<open>id\<close> filter of a delete and for a textual age. (Servers from
  version 16 on also read \<^verbatim>\<open>0x10\<close>, \<^verbatim>\<open>0o17\<close>, \<^verbatim>\<open>0b11\<close> and \<^verbatim>\<open>1_000\<close>; the model follows
  the earlier ones and refuses these.)
\<close>

definition pg_int_literal :: "string \<Rightarrow> int option" where
  "pg_int_literal s =
     (let (neg, u) = strip_sign (dropWhile is_space s);
          ds = takeWhile (is_digit 10) u;
          rest = dropWhile (is_digit 10) u
      in if ds = [] \<or> dropWhile is_space rest \<noteq> [] then None
         else Some (if neg then - int (digits_value 10 ds) else int (digits_value 10 ds)))"

definition in_int4 :: "int \<Rightarrow> bool" where
  "in_int4 n = (- 2147483648 \<le> n \<and> n \<le> 2147483647)"

definition in_int8 :: "int \<Rightarrow> bool" where
  "in_int8 n = (- 9223372036854775808 \<le> n \<and> n \<le> 9223372036854775807)"

text \<open>A JSON value arriving at a TEXT column; \<open>None\<close> is SQL NULL.\<close>

definition pg_text :: "jsval \<Rightarrow> string option" where
  "pg_text v =
     (case json_of v of
        Str s \<Rightarrow> Some s
      | Num n \<Rightarrow> Some (number_text n)
      | Bool b \<Rightarrow> Some (if b then ''true'' else ''false'')
      | _ \<Rightarrow> None)"

text \<open>A JSON value arriving at an INTEGER column.\<close>

definition pg_integer :: "jsval \<Rightarrow> pg_error + int option" where
  "pg_integer v =
     (case json_of v of
        Num n \<Rightarrow> if in_int4 n then Inr (Some n) else Inl NumericValueOutOfRange
      | Str s \<Rightarrow>
          (case pg_int_literal s of
             None \<Rightarrow> Inl InvalidTextRepresentation
           | Some n \<Rightarrow> if in_int4 n then Inr (Some n) else Inl NumericValueOutOfRange)
      | Bool b \<Rightarrow> Inl InvalidTextRepresentation
      | _ \<Rightarrow> Inr None)"

text \<open>
  \<^verbatim>\<open>from(t).insert(d).select()\<close>: the values are converted, the identity and the
  \<^verbatim>\<open>NOW()\<close> defaults are filled in, then NOT NULL, the CHECK on age and the unique index
  on email are tested in that order. A rejected row leaves \<open>rows\<close> as it was (the
  identity value it drew is not given back).
\<close>

definition pg_insert_select ::
  "bool \<Rightarrow> int \<Rightarrow> string \<Rightarrow> new_user \<Rightarrow> pg \<Rightarrow> row list postgrest_response \<times> pg"
where
  "pg_insert_select online now tbl d db =
     (if \<not> online then (pg_fail ConnectionFailure, db)
      else if tbl \<noteq> ''users'' then (pg_fail (UndefinedTable tbl), db)
      else
        case pg_integer (nu_age d) of
          Inl e \<Rightarrow> (pg_fail e, db)
        | Inr a \<Rightarrow>
            let db1 = db\<lparr>seq := seq db + 1\<rparr> in
            case pg_text (nu_name d) of
              None \<Rightarrow> (pg_fail (NotNullViolation ''name''), db1)
            | Some n \<Rightarrow>
                case pg_text (nu_email d) of
                  None \<Rightarrow> (pg_fail (NotNullViolation ''email''), db1)
                | Some e \<Rightarrow>
                    case a of
                      None \<Rightarrow> (pg_fail (NotNullViolation ''age''), db1)
                    | Some g \<Rightarrow>
                        if \<not> (g > 0 \<and> g < 150) then
                          (pg_fail (CheckViolation ''users_age_check''), db1)
                        else if e \<in> set (map row_email (rows db)) then
                          (pg_fail (UniqueViolation ''users_email_key''), db1)
                        else
                          let r = \<lparr>row_id = seq db + 1, row_name = n, row_email = e,
                                   row_age = g, created_at = Some now, updated_at = Some now\<rparr>
                          in (pg_ok [r], db1\<lparr>rows := rows db @ [r]\<rparr>))"

text \<open>
  \<^verbatim>\<open>order("created_at", { ascending: false })\<close>: descending, and a NULL timestamp sorts
  as larger than every value, so it comes first. The order among rows with equal
  timestamps is the store's choice; the model lists them in the order of their insertion.
\<close>

definition created_at_key :: "row \<Rightarrow> nat \<times> int" where
  "created_at_key r = (case created_at r of None \<Rightarrow> (1, 0) | Some t \<Rightarrow> (0, t))"

definition pg_select_order :: "bool \<Rightarrow> string \<Rightarrow> pg \<Rightarrow> row list postgrest_response" where
  "pg_select_order online tbl db =
     (if \<not> online then pg_fail ConnectionFailure
      else if tbl \<noteq> ''users'' then pg_fail (UndefinedTable tbl)
      else pg_ok (rev (sort_key created_at_key (rev (rows db)))))"

text \<open>\<^verbatim>\<open>from(t).delete().eq("id", id)\<close>: the text is read as a BIGINT, then matched.\<close>

definition pg_delete_eq :: "bool \<Rightarrow> string \<Rightarrow> string \<Rightarrow> pg \<Rightarrow> unit postgrest_response \<times> pg" where
  "pg_delete_eq online tbl i db =
     (if \<not> online then (pg_fail ConnectionFailure, db)
      else if tbl \<noteq> ''users'' then (pg_fail (UndefinedTable tbl), db)
      else
        case pg_int_literal i of
          None \<Rightarrow> (pg_fail InvalidTextRepresentation, db)
        | Some n \<Rightarrow>
            if \<not> in_int8 n then (pg_fail NumericValueOutOfRange, db)
            else (\<lparr>data = None, error = None\<rparr>, db\<lparr>rows := filter (\<lambda>r. row_id r \<noteq> n) (rows db)\<rparr>))"

subsection \<open>SupabaseService\<close>

text \<open>Each method awaits the client, throws a non-null \<^verbatim>\<open>error\<close>, else returns \<^verbatim>\<open>data\<close>.\<close>

definition entered :: "pg \<Rightarrow> pg" where
  "entered db = db\<lparr>supabase_calls := supabase_calls db + 1\<rparr>"

definition supabase_getAll :: "bool \<Rightarrow> string \<Rightarrow> pg \<Rightarrow> (thrown + row list option) \<times> pg" where
  "supabase_getAll online tableName db =
     (let r = pg_select_order online tableName db in
      case error r of
        Some e \<Rightarrow> (Inl (PostgrestError e), entered db)
      | None \<Rightarrow> (Inr (data r), entered db))"

definition supabase_insert ::
  "bool \<Rightarrow> int \<Rightarrow> string \<Rightarrow> new_user \<Rightarrow> pg \<Rightarrow> (thrown + row list option) \<times> pg"
where
  "supabase_insert online now tableName d db =
     (let (r, db') = pg_insert_select online now tableName d (entered db) in
      case error r of
        Some e \<Rightarrow> (Inl (PostgrestError e), db')
      | None \<Rightarrow> (Inr (data r), db'))"

definition supabase_delete :: "bool \<Rightarrow> string \<Rightarrow> string \<Rightarrow> pg \<Rightarrow> (thrown + unit) \<times> pg" where
  "supabase_delete online tableName i db =
     (let (r, db') = pg_delete_eq online tableName i (entered db) in
      case error r of
        Some e \<Rightarrow> (Inl (PostgrestError e), db')
      | None \<Rightarrow> (Inr (), db'))"

section \<open>The route layer\<close>

text \<open>
  Every handler answers with \<^verbatim>\<open>NextResponse.json(envelope, { status })\<close>. The four
  envelope shapes of the routes: the list \<^verbatim>\<open>{ success: true, users, database, type }\<close>,
  the created record \<^verbatim>\<open>{ success: true, user, database, type }\<close> (a \<open>None\<close> user is a
  field without a record: \<^verbatim>\<open>undefined\<close>, dropped from the JSON text, or \<^verbatim>\<open>null\<close>),
  the deletion \<^verbatim>\<open>{ success: true, message, database, type }\<close>, and the failure
  \<^verbatim>\<open>{ success: false, error, details }\<close>, which carries the caught value its
  \<^verbatim>\<open>details\<close> text is taken from (none on the 400 and 404 answers). The handlers' console
  output is left out.
\<close>

datatype 'u envelope =
    Users "'u list" string string
  | User "'u option" string string
  | Message string string string
  | Failure string "thrown option"

fun success :: "'u envelope \<Rightarrow> bool" where
  "success (Failure e d) = False"
| "success v = True"

record 'u response =
  status :: nat
  json :: "'u envelope"

text \<open>
  The request body: \<^verbatim>\<open>request.json()\<close> rejects text that is not JSON (\<open>NotJson\<close>);
  otherwise it yields an object or another JSON value.
\<close>

datatype request_body =
    NotJson
  | JsonValue jsval
  | JsonObject doc

text \<open>
  \<^verbatim>\<open>const { name, email, age } = body\<close>: destructuring \<^verbatim>\<open>null\<close> throws a TypeError,
  a primitive has none of the three properties.
\<close>

definition destructure :: "request_body \<Rightarrow> thrown + jsval \<times> jsval \<times> jsval" where
  "destructure b =
     (case b of
        NotJson \<Rightarrow> Inl SyntaxError
      | JsonValue v \<Rightarrow>
          if v = Null \<or> v = Undefined then Inl TypeError
          else Inr (Undefined, Undefined, Undefined)
      | JsonObject d \<Rightarrow> Inr (field d ''name'', field d ''email'', field d ''age''))"

text \<open>\<^verbatim>\<open>newUser[0]\<close>: reading index 0 of an empty array gives \<^verbatim>\<open>undefined\<close>.\<close>

definition first :: "'a list \<Rightarrow> 'a option" where
  "first xs = (case xs of [] \<Rightarrow> None | x # _ \<Rightarrow> Some x)"

subsection \<open>The routes of the relational backend\<close>

definition supabase_GET :: "bool \<Rightarrow> pg \<Rightarrow> row response \<times> pg" where
  "supabase_GET online db =
     (case supabase_getAll online ''users'' db of
        (Inr users, db') \<Rightarrow>
          (\<lparr>status = 200,
            json = Users (case users of None \<Rightarrow> [] | Some us \<Rightarrow> us) ''supabase'' ''SQL''\<rparr>, db')
      | (Inl e, db') \<Rightarrow>
          (\<lparr>status = 500, json = Failure ''Failed to fetch users from Supabase'' (Some e)\<rparr>, db'))"

text \<open>
  What the create handler answers once \<^verbatim>\<open>supabaseService.insert\<close> has settled: the
  success envelope around \<^verbatim>\<open>newUser[0]\<close>, or the \<^verbatim>\<open>catch\<close> block's answer. Indexing a
  \<^verbatim>\<open>null\<close> result throws inside the \<^verbatim>\<open>try\<close>.
\<close>

definition supabase_POST_answer :: "thrown + row list option \<Rightarrow> row response" where
  "supabase_POST_answer r =
     (case r of
        Inl e \<Rightarrow> \<lparr>status = 500, json = Failure ''Failed to create user in Supabase'' (Some e)\<rparr>
      | Inr None \<Rightarrow>
          \<lparr>status = 500, json = Failure ''Failed to create user in Supabase'' (Some TypeError)\<rparr>
      | Inr (Some newUser) \<Rightarrow>
          \<lparr>status = 200, json = User (first newUser) ''supabase'' ''SQL''\<rparr>)"

definition supabase_POST :: "bool \<Rightarrow> int \<Rightarrow> request_body \<Rightarrow> pg \<Rightarrow> row response \<times> pg" where
  "supabase_POST online now body db =
     (case destructure body of
        Inl e \<Rightarrow> (supabase_POST_answer (Inl e), db)
      | Inr (name, email, age) \<Rightarrow>
          if \<not> truthy name \<or> \<not> truthy email \<or> \<not> truthy age then
            (\<lparr>status = 400, json = Failure ''Name, email, and age are required'' None\<rparr>, db)
          else
            let (r, db') = supabase_insert online now ''users'' (NewUser name email (parseInt age)) db
            in (supabase_POST_answer r, db'))"

definition supabase_DELETE :: "bool \<Rightarrow> string \<Rightarrow> pg \<Rightarrow> row response \<times> pg" where
  "supabase_DELETE online i db =
     (if i = [] then (\<lparr>status = 400, json = Failure ''User ID is required'' None\<rparr>, db)
      else
        case supabase_delete online ''users'' i db of
          (Inl e, db') \<Rightarrow>
            (\<lparr>status = 500, json = Failure ''Failed to delete user from Supabase'' (Some e)\<rparr>, db')
        | (Inr u, db') \<Rightarrow>
            (\<lparr>status = 200, json = Message ''User deleted successfully'' ''supabase'' ''SQL''\<rparr>, db'))"

section \<open>The document store\<close>

text \<open>
  A collection is the list of its documents in insertion order; a name never used is the
  empty collection. \<open>cachedClient\<close> and \<open>cachedDb\<close> are the module's two cache variables,
  \<open>service_db\<close> is the \<^verbatim>\<open>db\<close> field of the exported \<^verbatim>\<open>mongoService\<close>. A client handle is
  numbered by the connection that produced it, and \<open>connections\<close> counts the calls of
  \<^verbatim>\<open>client.connect()\<close> that succeeded; \<open>mongo_calls\<close> counts the adapter methods entered.
\<close>

record mongo =
  cachedClient :: "nat option"
  cachedDb :: "nat option"
  service_db :: "nat option"
  connections :: nat
  collections :: "string \<Rightarrow> doc list"
  mongo_calls :: nat

subsection \<open>The driver's collection operations\<close>

text \<open>
  The comparison order of the store on the values of one field, as a sort key: null (and
  a missing field) below numbers, numbers below strings, strings below ObjectIds,
  ObjectIds below booleans; NaN below every number, the infinities at the two ends of the
  numbers; strings compared byte by byte.
\<close>

fun bson_key :: "jsval \<Rightarrow> nat \<times> int \<times> nat list" where
  "bson_key Undefined = (1, 0, [])"
| "bson_key Null = (1, 0, [])"
| "bson_key NaN = (2, 0, [])"
| "bson_key NegInfinity = (3, 0, [])"
| "bson_key (Num n) = (4, n, [])"
| "bson_key PosInfinity = (5, 0, [])"
| "bson_key (Str s) = (6, 0, map of_char s)"
| "bson_key (ObjectId n) = (7, int n, [])"
| "bson_key (Bool b) = (8, if b then 1 else 0, [])"

definition createdAt_key :: "doc \<Rightarrow> nat \<times> int \<times> nat list" where
  "createdAt_key d = bson_key (field d ''createdAt'')"

text \<open>\<^verbatim>\<open>find({}).sort({ createdAt: -1 }).toArray()\<close>; the order among ties is the store's choice.\<close>

definition find_sort_desc :: "doc list \<Rightarrow> doc list" where
  "find_sort_desc ds = rev (sort_key createdAt_key ds)"

text \<open>An \<^verbatim>\<open>undefined\<close> field value is written as \<^verbatim>\<open>null\<close>.\<close>

fun bson_of :: "jsval \<Rightarrow> jsval" where
  "bson_of Undefined = Null"
| "bson_of v = v"

text \<open>
  \<^verbatim>\<open>collection.insertOne(d)\<close>: a document without an \<^verbatim>\<open>_id\<close> gets the ObjectId the driver
  generates (\<open>fresh\<close>), one with an \<^verbatim>\<open>_id\<close> keeps it; an \<^verbatim>\<open>_id\<close> already in the collection
  is a duplicate-key error. The result is \<^verbatim>\<open>insertedId\<close>.
\<close>

definition insertedId :: "nat \<Rightarrow> doc \<Rightarrow> jsval" where
  "insertedId fresh d =
     (if field d ''_id'' = Null \<or> field d ''_id'' = Undefined then ObjectId fresh
      else field d ''_id'')"

definition stored :: "nat \<Rightarrow> doc \<Rightarrow> doc" where
  "stored fresh d =
     (''_id'', insertedId fresh d) # map (\<lambda>(k, v). (k, bson_of v)) (AList.delete ''_id'' d)"

definition driver_insertOne :: "nat \<Rightarrow> doc \<Rightarrow> doc list \<Rightarrow> mongo_error + jsval \<times> doc list" where
  "driver_insertOne fresh d ds =
     (if insertedId fresh d \<in> set (map (\<lambda>e. field e ''_id'') ds) then Inl DuplicateKey
      else Inr (insertedId fresh d, ds @ [stored fresh d]))"

text \<open>\<^verbatim>\<open>collection.findOne({ _id: i })\<close>: the first match, or \<^verbatim>\<open>null\<close>.\<close>

definition driver_findOne :: "jsval \<Rightarrow> doc list \<Rightarrow> doc option" where
  "driver_findOne i ds = find (\<lambda>e. field e ''_id'' = i) ds"

text \<open>
  \<^verbatim>\<open>new ObjectId(id)\<close> on a string: 24 hexadecimal digits give the identifier, anything
  else throws. (Releases of the driver before its version 5 also took any 12-character
  string; the model follows the later ones.)
\<close>

definition new_ObjectId :: "string \<Rightarrow> nat option" where
  "new_ObjectId s =
     (if length s = 24 \<and> list_all (is_digit 16) s then Some (digits_value 16 s) else None)"

fun remove_first :: "('a \<Rightarrow> bool) \<Rightarrow> 'a list \<Rightarrow> 'a list" where
  "remove_first P [] = []"
| "remove_first P (x # xs) = (if P x then xs else x # remove_first P xs)"

record delete_result =
  deletedCount :: nat

text \<open>\<^verbatim>\<open>collection.deleteOne({ _id: i })\<close> removes the first match and counts it.\<close>

definition driver_deleteOne :: "jsval \<Rightarrow> doc list \<Rightarrow> delete_result \<times> doc list" where
  "driver_deleteOne i ds =
     (let ds' = remove_first (\<lambda>e. field e ''_id'' = i) ds
      in (\<lparr>deletedCount = length ds - length ds'\<rparr>, ds'))"

record update_result =
  matchedCount :: nat
  modifiedCount :: nat

definition set_fields :: "doc \<Rightarrow> doc \<Rightarrow> doc" where
  "set_fields u d = foldl (\<lambda>acc (k, v). AList.update k (bson_of v) acc) d u"

fun update_first :: "('a \<Rightarrow> bool) \<Rightarrow> ('a \<Rightarrow> 'a) \<Rightarrow> 'a list \<Rightarrow> 'a list" where
  "update_first P f [] = []"
| "update_first P f (x # xs) = (if P x then f x # xs else x # update_first P f xs)"

text \<open>
  \<^verbatim>\<open>collection.updateOne({ _id: i }, { $set: u })\<close> merges the fields of \<open>u\<close> into the
  first match; a \<^verbatim>\<open>$set\<close> that would change \<^verbatim>\<open>_id\<close> is refused.
\<close>

definition driver_updateOne :: "jsval \<Rightarrow> doc \<Rightarrow> doc list \<Rightarrow> mongo_error + update_result \<times> doc list" where
  "driver_updateOne i u ds =
     (case driver_findOne i ds of
        None \<Rightarrow> Inr (\<lparr>matchedCount = 0, modifiedCount = 0\<rparr>, ds)
      | Some d \<Rightarrow>
          if field (set_fields u d) ''_id'' \<noteq> i then Inl ImmutableField
          else Inr (\<lparr>matchedCount = 1, modifiedCount = (if set_fields u d = d then 0 else 1)\<rparr>,
                    update_first (\<lambda>e. field e ''_id'' = i) (set_fields u) ds))"

subsection \<open>Connection caching\<close>

text \<open>
  \<open>online\<close> says whether the hosted server answers during the call. A failed
  \<^verbatim>\<open>client.connect()\<close> rethrows and caches nothing.
\<close>

definition connectToMongoDB :: "bool \<Rightarrow> mongo \<Rightarrow> (thrown + nat \<times> nat) \<times> mongo" where
  "connectToMongoDB online w =
     (case (cachedClient w, cachedDb w) of
        (Some client, Some db) \<Rightarrow> (Inr (client, db), w)
      | _ \<Rightarrow>
          if online then
            let client = connections w + 1; db = client
            in (Inr (client, db),
                w\<lparr>cachedClient := Some client, cachedDb := Some db, connections := client\<rparr>)
          else (Inl (MongoError ServerSelectionError), w))"

subsection \<open>MongoDBService\<close>

definition init :: "bool \<Rightarrow> mongo \<Rightarrow> (thrown + nat) \<times> mongo" where
  "init online w =
     (case service_db w of
        Some db \<Rightarrow> (Inr db, w)
      | None \<Rightarrow>
          (case connectToMongoDB online w of
             (Inl e, w') \<Rightarrow> (Inl e, w')
           | (Inr (client, db), w') \<Rightarrow> (Inr db, w'\<lparr>service_db := Some db\<rparr>)))"

text \<open>A collection handle is the database handle with the collection's name.\<close>

definition getCollection :: "bool \<Rightarrow> string \<Rightarrow> mongo \<Rightarrow> (thrown + nat \<times> string) \<times> mongo" where
  "getCollection online collectionName w =
     (case init online w of
        (Inl e, w') \<Rightarrow> (Inl e, w')
      | (Inr db, w') \<Rightarrow> (Inr (db, collectionName), w'))"

definition mongo_entered :: "mongo \<Rightarrow> mongo" where
  "mongo_entered w = w\<lparr>mongo_calls := mongo_calls w + 1\<rparr>"

definition findAll :: "bool \<Rightarrow> string \<Rightarrow> mongo \<Rightarrow> (thrown + doc list) \<times> mongo" where
  "findAll online collectionName w =
     (case getCollection online collectionName (mongo_entered w) of
        (Inl e, w') \<Rightarrow> (Inl e, w')
      | (Inr c, w') \<Rightarrow>
          if \<not> online then (Inl (MongoError NetworkError), w')
          else (Inr (find_sort_desc (collections w' collectionName)), w'))"

text \<open>
  \<^verbatim>\<open>{ ...document, createdAt: new Date().toISOString(), updatedAt: new Date().toISOString() }\<close>:
  \<open>iso1\<close> and \<open>iso2\<close> are the texts the two clock reads return, in that order. A key the
  document already has keeps its place and takes the new value.
\<close>

definition documentWithTimestamp :: "string \<Rightarrow> string \<Rightarrow> doc \<Rightarrow> doc" where
  "documentWithTimestamp iso1 iso2 document =
     AList.update ''updatedAt'' (Str iso2) (AList.update ''createdAt'' (Str iso1) document)"

definition insertOne ::
  "bool \<Rightarrow> string \<Rightarrow> string \<Rightarrow> nat \<Rightarrow> string \<Rightarrow> doc \<Rightarrow> mongo \<Rightarrow> (thrown + doc option) \<times> mongo"
where
  "insertOne online iso1 iso2 fresh collectionName document w =
     (case getCollection online collectionName (mongo_entered w) of
        (Inl e, w') \<Rightarrow> (Inl e, w')
      | (Inr c, w') \<Rightarrow>
          if \<not> online then (Inl (MongoError NetworkError), w')
          else
            case driver_insertOne fresh (documentWithTimestamp iso1 iso2 document)
                   (collections w' collectionName) of
              Inl e \<Rightarrow> (Inl (MongoError e), w')
            | Inr (i, ds) \<Rightarrow>
                (Inr (driver_findOne i ds),
                 w'\<lparr>collections := (collections w')(collectionName := ds)\<rparr>))"

definition deleteOne :: "bool \<Rightarrow> string \<Rightarrow> string \<Rightarrow> mongo \<Rightarrow> (thrown + delete_result) \<times> mongo" where
  "deleteOne online collectionName i w =
     (case getCollection online collectionName (mongo_entered w) of
        (Inl e, w') \<Rightarrow> (Inl e, w')
      | (Inr c, w') \<Rightarrow>
          case new_ObjectId i of
            None \<Rightarrow> (Inl (MongoError BSONError), w')
          | Some n \<Rightarrow>
              if \<not> online then (Inl (MongoError NetworkError), w')
              else
                let (r, ds) = driver_deleteOne (ObjectId n) (collections w' collectionName)
                in (Inr r, w'\<lparr>collections := (collections w')(collectionName := ds)\<rparr>))"

definition updateOne ::
  "bool \<Rightarrow> string \<Rightarrow> string \<Rightarrow> string \<Rightarrow> doc \<Rightarrow> mongo \<Rightarrow> (thrown + update_result) \<times> mongo"
where
  "updateOne online stamp collectionName i u w =
     (case getCollection online collectionName (mongo_entered w) of
        (Inl e, w') \<Rightarrow> (Inl e, w')
      | (Inr c, w') \<Rightarrow>
          case new_ObjectId i of
            None \<Rightarrow> (Inl (MongoError BSONError), w')
          | Some n \<Rightarrow>
              if \<not> online then (Inl (MongoError NetworkError), w')
              else
                case driver_updateOne (ObjectId n) (AList.update ''updatedAt'' (Str stamp) u)
                       (collections w' collectionName) of
                  Inl e \<Rightarrow> (Inl (MongoError e), w')
                | Inr (r, ds) \<Rightarrow>
                    (Inr r, w'\<lparr>collections := (collections w')(collectionName := ds)\<rparr>))"

subsection \<open>The routes of the document backend\<close>

definition mongodb_GET :: "bool \<Rightarrow> mongo \<Rightarrow> doc response \<times> mongo" where
  "mongodb_GET online w =
     (case findAll online ''users'' w of
        (Inr users, w') \<Rightarrow> (\<lparr>status = 200, json = Users users ''mongodb'' ''NoSQL''\<rparr>, w')
      | (Inl e, w') \<Rightarrow>
          (\<lparr>status = 500, json = Failure ''Failed to fetch users from MongoDB'' (Some e)\<rparr>, w'))"

text \<open>What the create handler answers once \<^verbatim>\<open>mongoService.insertOne\<close> has settled.\<close>

definition mongodb_POST_answer :: "thrown + doc option \<Rightarrow> doc response" where
  "mongodb_POST_answer r =
     (case r of
        Inl e \<Rightarrow> \<lparr>status = 500, json = Failure ''Failed to create user in MongoDB'' (Some e)\<rparr>
      | Inr newUser \<Rightarrow> \<lparr>status = 200, json = User newUser ''mongodb'' ''NoSQL''\<rparr>)"

definition mongodb_POST ::
  "bool \<Rightarrow> string \<Rightarrow> string \<Rightarrow> nat \<Rightarrow> request_body \<Rightarrow> mongo \<Rightarrow> doc response \<times> mongo"
where
  "mongodb_POST online iso1 iso2 fresh body w =
     (case destructure body of
        Inl e \<Rightarrow> (mongodb_POST_answer (Inl e), w)
      | Inr (name, email, age) \<Rightarrow>
          if \<not> truthy name \<or> \<not> truthy email \<or> \<not> truthy age then
            (\<lparr>status = 400, json = Failure ''Name, email, and age are required'' None\<rparr>, w)
          else
            let (r, w') = insertOne online iso1 iso2 fresh ''users''
                            [(''name'', name), (''email'', email), (''age'', parseInt age)] w
            in (mongodb_POST_answer r, w'))"

definition mongodb_DELETE :: "bool \<Rightarrow> string \<Rightarrow> mongo \<Rightarrow> doc response \<times> mongo" where
  "mongodb_DELETE online i w =
     (if i = [] then (\<lparr>status = 400, json = Failure ''User ID is required'' None\<rparr>, w)
      else
        case deleteOne online ''users'' i w of
          (Inl e, w') \<Rightarrow>
            (\<lparr>status = 500, json = Failure ''Failed to delete user from MongoDB'' (Some e)\<rparr>, w')
        | (Inr result, w') \<Rightarrow>
            if deletedCount result = 0 then
              (\<lparr>status = 404, json = Failure ''User not found'' None\<rparr>, w')
            else
              (\<lparr>status = 200, json = Message ''User deleted successfully'' ''mongodb'' ''NoSQL''\<rparr>, w'))"

subsection \<open>Sequences of adapter operations in one process\<close>

datatype operation =
    FindAll string
  | InsertOne string string nat string doc
  | DeleteOne string string
  | UpdateOne string string string doc

text \<open>One awaited adapter call; \<open>online\<close> is the state of the network during it.\<close>

fun perform :: "bool \<times> operation \<Rightarrow> mongo \<Rightarrow> mongo" where
  "perform (online, FindAll c) w = snd (findAll online c w)"
| "perform (online, InsertOne iso1 iso2 fresh c d) w = snd (insertOne online iso1 iso2 fresh c d w)"
| "perform (online, DeleteOne c i) w = snd (deleteOne online c i w)"
| "perform (online, UpdateOne stamp c i u) w = snd (updateOne online stamp c i u w)"

fun run :: "(bool \<times> operation) list \<Rightarrow> mongo \<Rightarrow> mongo" where
  "run [] w = w"
| "run (x # xs) w = run xs (perform x w)"

text \<open>The module state when the process starts, over whatever the server holds.\<close>

definition process_start :: "(string \<Rightarrow> doc list) \<Rightarrow> mongo" where
  "process_start cs =
     \<lparr>cachedClient = None, cachedDb = None, service_db = None, connections = 0,
      collections = cs, mongo_calls = 0\<rparr>"

section \<open>The presentation layer\<close>

text \<open>
  The page's four state variables, with the developer console and the \<^verbatim>\<open>alert\<close> boxes
  shown so far. Each handler is modelled from its call to the moment all the requests it
  started have settled; the outcomes of those requests are its inputs.
\<close>

datatype backend = supabase | mongodb

fun backend_name :: "backend \<Rightarrow> string" where
  "backend_name supabase = ''supabase''"
| "backend_name mongodb = ''mongodb''"

record draft =
  name :: string
  email :: string
  age :: string

record 'u page =
  users :: "'u list"
  loading :: bool
  newUser :: draft
  activeTab :: backend
  console :: "string list"
  alerts :: "string list"

text \<open>
  What \<^verbatim>\<open>response.json()\<close> gives: \<^verbatim>\<open>null\<close>, or a value whose \<^verbatim>\<open>users\<close> property is
  a list (\<open>Some\<close>) or is missing or falsy (\<open>None\<close>).
\<close>

datatype 'u parsed = JsonNull | JsonData "'u list option"

text \<open>
  How a \<^verbatim>\<open>fetch\<close> settles: it rejects, or it resolves with \<^verbatim>\<open>response.ok\<close> and a body
  that parses (\<open>Some\<close>) or does not (\<open>None\<close>).
\<close>

datatype 'u fetched = Rejected | Resolved bool "'u parsed option"

definition console_error :: "string \<Rightarrow> 'u page \<Rightarrow> 'u page" where
  "console_error m s = s\<lparr>console := console s @ [m]\<rparr>"

definition fetchUsers :: "backend \<Rightarrow> 'u page \<Rightarrow> 'u fetched \<Rightarrow> 'u page" where
  "fetchUsers database s r =
     (let s1 = s\<lparr>loading := True\<rparr>;
          failed = console_error (''Error fetching users from '' @ backend_name database @ '':'') s1;
          s2 = (case r of
                  Rejected \<Rightarrow> failed
                | Resolved ok None \<Rightarrow> failed
                | Resolved ok (Some JsonNull) \<Rightarrow> failed
                | Resolved ok (Some (JsonData us)) \<Rightarrow>
                    s1\<lparr>users := (case us of None \<Rightarrow> [] | Some l \<Rightarrow> l)\<rparr>)
      in s2\<lparr>loading := False\<rparr>)"

text \<open>The body \<^verbatim>\<open>createUser\<close> sends: the age is parsed before \<^verbatim>\<open>JSON.stringify\<close>.\<close>

definition createUser_body :: "draft \<Rightarrow> request_body" where
  "createUser_body d =
     JsonObject [(''name'', Str (name d)), (''email'', Str (email d)),
                 (''age'', json_of (parseInt (Str (age d))))]"

text \<open>
  \<open>r1\<close> is the outcome of the POST, \<open>r2\<close> that of the list request started after an
  \<^verbatim>\<open>ok\<close> answer. The list request is not awaited, so the handler's \<^verbatim>\<open>finally\<close> runs
  before it settles; the state once both have settled is the same.
\<close>

definition createUser :: "backend \<Rightarrow> 'u page \<Rightarrow> 'u fetched \<Rightarrow> 'u fetched \<Rightarrow> 'u page" where
  "createUser database s r1 r2 =
     (if name (newUser s) = [] \<or> email (newUser s) = [] \<or> age (newUser s) = [] then
        s\<lparr>alerts := alerts s @ [''Please fill all fields'']\<rparr>
      else
        let s1 = s\<lparr>loading := True\<rparr> in
        case r1 of
          Rejected \<Rightarrow>
            (console_error (''Error creating user in '' @ backend_name database @ '':'') s1)
              \<lparr>loading := False\<rparr>
        | Resolved ok b \<Rightarrow>
            if ok then
              fetchUsers database (s1\<lparr>newUser := \<lparr>name = [], email = [], age = []\<rparr>\<rparr>) r2
            else s1\<lparr>loading := False\<rparr>)"

definition deleteUser :: "backend \<Rightarrow> string \<Rightarrow> 'u page \<Rightarrow> 'u fetched \<Rightarrow> 'u fetched \<Rightarrow> 'u page" where
  "deleteUser database userId s r1 r2 =
     (let s1 = s\<lparr>loading := True\<rparr> in
      case r1 of
        Rejected \<Rightarrow>
          (console_error (''Error deleting user from '' @ backend_name database @ '':'') s1)
            \<lparr>loading := False\<rparr>
      | Resolved ok b \<Rightarrow>
          if ok then fetchUsers database s1 r2
          else s1\<lparr>loading := False\<rparr>)"

text \<open>How an answer of the route layer reaches \<^verbatim>\<open>fetch\<close>.\<close>

definition http :: "'u response \<Rightarrow> 'u fetched" where
  "http r =
     Resolved (200 \<le> status r \<and> status r < 300)
       (Some (JsonData (case json r of Users us d t \<Rightarrow> Some us | _ \<Rightarrow> None)))"

section \<open>Reference states and the vocabulary of the properties\<close>

text \<open>
  The state of the table after the creation script's sample \<^verbatim>\<open>INSERT\<close>: one statement
  inserts four rows, so all four take the same \<^verbatim>\<open>NOW()\<close>, here \<open>t\<close>.
\<close>

definition seeded :: "int \<Rightarrow> pg" where
  "seeded t =
     \<lparr>rows =
        [\<lparr>row_id = 1, row_name = ''John Doe'', row_email = ''john.doe@example.com'',
          row_age = 30, created_at = Some t, updated_at = Some t\<rparr>,
         \<lparr>row_id = 2, row_name = ''Jane Smith'', row_email = ''jane.smith@example.com'',
          row_age = 25, created_at = Some t, updated_at = Some t\<rparr>,
         \<lparr>row_id = 3, row_name = ''Bob Johnson'', row_email = ''bob.johnson@example.com'',
          row_age = 35, created_at = Some t, updated_at = Some t\<rparr>,
         \<lparr>row_id = 4, row_name = ''Alice Brown'', row_email = ''alice.brown@example.com'',
          row_age = 28, created_at = Some t, updated_at = Some t\<rparr>],
      seq = 4, supabase_calls = 0\<rparr>"

text \<open>Orderings of a list by a key, largest first: with ties allowed, and without.\<close>

definition descending :: "('a \<Rightarrow> 'k::linorder) \<Rightarrow> 'a list \<Rightarrow> bool" where
  "descending f xs = sorted_wrt (\<lambda>a b. f a \<ge> f b) xs"

definition strictly_descending :: "('a \<Rightarrow> 'k::linorder) \<Rightarrow> 'a list \<Rightarrow> bool" where
  "strictly_descending f xs = sorted_wrt (\<lambda>a b. f a > f b) xs"

text \<open>
  On the three destructured fields of a body: all of them pass the presence test of the
  create routes; one of them is absent from the body.
\<close>

definition all_truthy :: "jsval \<times> jsval \<times> jsval \<Rightarrow> bool" where
  "all_truthy f = (case f of (n, e, a) \<Rightarrow> truthy n \<and> truthy e \<and> truthy a)"

definition some_missing :: "jsval \<times> jsval \<times> jsval \<Rightarrow> bool" where
  "some_missing f = (case f of (n, e, a) \<Rightarrow> n = Undefined \<or> e = Undefined \<or> a = Undefined)"

text \<open>The outcomes on which the \<^verbatim>\<open>try\<close> block of \<^verbatim>\<open>fetchUsers\<close> throws.\<close>

fun throws :: "'u fetched \<Rightarrow> bool" where
  "throws Rejected = True"
| "throws (Resolved ok None) = True"
| "throws (Resolved ok (Some JsonNull)) = True"
| "throws (Resolved ok (Some (JsonData us))) = False"

text \<open>The client-side check of \<^verbatim>\<open>createUser\<close>: no box of the draft is empty.\<close>

definition filled :: "draft \<Rightarrow> bool" where
  "filled d = (name d \<noteq> [] \<and> email d \<noteq> [] \<and> age d \<noteq> [])"

text \<open>
  A page that shows the seeded rows, with a draft whose three boxes are filled in; the
  email is one the table already holds.
\<close>

definition shown :: "row page" where
  "shown =
     \<lparr>users = rows (seeded 0), loading = False,
      newUser = \<lparr>name = ''John'', email = ''john.doe@example.com'', age = ''40''\<rparr>,
      activeTab = supabase, console = [], alerts = []\<rparr>"

text \<open>The two shapes of the connection state: nothing cached, and the first connection cached.\<close>

definition unconnected :: "mongo \<Rightarrow> bool" where
  "unconnected w =
     (cachedClient w = None \<and> cachedDb w = None \<and> service_db w = None \<and> connections w = 0)"

definition connected :: "mongo \<Rightarrow> bool" where
  "connected w =
     (cachedClient w = Some 1 \<and> cachedDb w = Some 1 \<and> service_db w = Some 1 \<and> connections w = 1)"

text \<open>A process that has connected and stored one document.\<close>

definition ann_stored :: mongo where
  "ann_stored =
     \<lparr>cachedClient = Some 1, cachedDb = Some 1, service_db = Some 1, connections = 1,
      collections = (\<lambda>c. [])(''users'' :=
        [[(''_id'', ObjectId 255), (''name'', Str ''Ann''), (''email'', Str ''ann@x.com''),
          (''age'', Num 40), (''createdAt'', Str ''2026-01-01T00:00:00.000Z''),
          (''updatedAt'', Str ''2026-01-01T00:00:00.001Z'')]]),
      mongo_calls = 1\<rparr>"

section \<open>Properties\<close>

subsection \<open>Evaluation of the parsers\<close>

lemma parseInt_Str_0: "parseInt (Str ''0'') = Num 0"
  by code_simp

lemma parseInt_Str_150: "parseInt (Str ''150'') = Num 150"
  by code_simp

lemma parseInt_Str_40: "parseInt (Str ''40'') = Num 40"
  by code_simp

lemma parseInt_Str_abc: "parseInt (Str ''abc'') = NaN"
  by code_simp

lemma parseInt_number:
  "parseInt v = NaN \<or> parseInt v = PosInfinity \<or> parseInt v = NegInfinity
   \<or> (\<exists>n. parseInt v = Num n)"
  by (simp add: parseInt_def to_number_def Let_def split: prod.splits option.splits)

subsection \<open>Parsing the text of a safe integer gives it back\<close>

lemma digit_val_digit_char: "d < 10 \<Longrightarrow> digit_val (digit_char d) = Some d"
  by (simp add: digit_val_def digit_char_def Let_def)

lemma is_digit_digit_char: "d < 10 \<Longrightarrow> is_digit 10 (digit_char d)"
  by (simp add: is_digit_def digit_val_digit_char)

lemma digits_int_snoc:
  "digits_int r (ds @ [c])
   = digits_int r ds * int r + (case digit_val c of None \<Rightarrow> 0 | Some d \<Rightarrow> int d)"
  by (simp add: digits_int_def)

lemma decimal_digits: "list_all (is_digit 10) (decimal n)"
proof (induction n rule: decimal.induct)
  case (1 n)
  show ?case
  proof (cases "n < 10")
    case True
    then show ?thesis
      by (simp add: decimal.simps [of n] is_digit_digit_char)
  next
    case False
    then have "nat (n mod 10) < 10"
      by simp
    with False 1 show ?thesis
      by (simp add: decimal.simps [of n] is_digit_digit_char)
  qed
qed

lemma decimal_value: "0 \<le> n \<Longrightarrow> digits_int 10 (decimal n) = n"
proof (induction n rule: decimal.induct)
  case (1 n)
  show ?case
  proof (cases "n < 10")
    case True
    with "1.prems" show ?thesis
      by (simp add: decimal.simps [of n] digits_int_def digit_val_digit_char)
  next
    case False
    then have m: "nat (n mod 10) < 10"
      by simp
    from False "1.prems" have "digits_int 10 (decimal (n div 10)) = n div 10"
      using "1.IH" by simp
    with False m show ?thesis
      by (simp add: decimal.simps [of n] digits_int_snoc digit_val_digit_char)
  qed
qed

lemma decimal_nonempty: "decimal n \<noteq> []"
  by (subst decimal.simps) simp

lemma is_digit_10_plain:
  "is_digit 10 c \<Longrightarrow> c \<noteq> CHR ''-'' \<and> c \<noteq> CHR ''+'' \<and> c \<noteq> CHR ''x'' \<and> c \<noteq> CHR ''X''"
  by (auto simp: is_digit_def digit_val_def Let_def split: if_splits)

lemma digit_is_no_space: "is_digit 10 c \<Longrightarrow> skip_space (c # cs) = c # cs"
proof -
  assume "is_digit 10 c"
  then have b: "48 \<le> (of_char c :: nat) \<and> (of_char c :: nat) \<le> 57"
    by (auto simp: is_digit_def digit_val_def Let_def split: if_splits)
  then have "space_width (of_char c # map of_char cs) = 0"
    by (auto simp: space_width_def space3_def take_Cons')
  then show ?thesis
    by simp
qed

lemma minus_is_no_space: "skip_space (CHR ''-'' # cs) = CHR ''-'' # cs"
proof -
  have "space_width (of_char CHR ''-'' # map of_char cs) = 0"
    by (auto simp: space_width_def space3_def take_Cons')
  then show ?thesis
    by simp
qed

lemma parseInt_digits:
  assumes "ds \<noteq> []" and "list_all (is_digit 10) ds"
  shows "parseInt (Str ds) = to_number False (digits_int 10 ds)"
    and "parseInt (Str (CHR ''-'' # ds)) = to_number True (digits_int 10 ds)"
proof -
  obtain c cs where ds: "ds = c # cs"
    using assms(1) by (cases ds) auto
  have c: "is_digit 10 c" and cs: "list_all (is_digit 10) cs"
    using assms(2) ds by auto
  have tw: "takeWhile (is_digit 10) ds = ds"
    using assms(2) by (simp add: list_all_iff)
  have rad: "strip_radix ds = (10, ds)"
  proof (cases cs)
    case Nil
    then show ?thesis
      using ds by (simp add: strip_radix_def)
  next
    case (Cons x xs)
    then have "is_digit 10 x"
      using cs by simp
    then have "x \<noteq> CHR ''x'' \<and> x \<noteq> CHR ''X''"
      using is_digit_10_plain by blast
    then show ?thesis
      using ds Cons by (simp add: strip_radix_def)
  qed
  have dw: "skip_space ds = ds"
    unfolding ds using c by (rule digit_is_no_space)
  have ss: "strip_sign ds = (False, ds)"
    using is_digit_10_plain [OF c] by (simp add: ds strip_sign_def)
  show "parseInt (Str ds) = to_number False (digits_int 10 ds)"
    using assms(1) by (simp add: parseInt_def dw ss rad tw del: takeWhile_eq_all_conv)
  have ss': "strip_sign (CHR ''-'' # ds) = (True, ds)"
    by (simp add: strip_sign_def)
  show "parseInt (Str (CHR ''-'' # ds)) = to_number True (digits_int 10 ds)"
    using assms(1)
    by (simp add: parseInt_def minus_is_no_space ss' rad tw
        del: takeWhile_eq_all_conv skip_space.simps)
qed

lemma safe_integer_text:
  assumes "\<bar>k\<bar> < 9007199254740992"
  shows "to_string (Num k) = (if k < 0 then CHR ''-'' # decimal \<bar>k\<bar> else decimal \<bar>k\<bar>)"
  using assms by (simp add: number_text_def round_to_double_def shortest_def)

lemma parseInt_text: "parseInt v = parseInt (Str (to_string v))"
  by (simp add: parseInt_def)

lemma parseInt_Num: "\<bar>k\<bar> < 9007199254740992 \<Longrightarrow> parseInt (Num k) = Num k"
proof -
  assume a: "\<bar>k\<bar> < 9007199254740992"
  have r: "round_to_double \<bar>k\<bar> = Some \<bar>k\<bar>"
    using a by (simp add: round_to_double_def)
  have v: "digits_int 10 (decimal \<bar>k\<bar>) = \<bar>k\<bar>"
    by (rule decimal_value) simp
  show ?thesis
  proof (cases "k < 0")
    case True
    then show ?thesis
      unfolding parseInt_text [of "Num k"]
      using parseInt_digits(2) [OF decimal_nonempty decimal_digits, of "\<bar>k\<bar>"]
        safe_integer_text [OF a] r v
      by (simp add: to_number_def)
  next
    case False
    then show ?thesis
      unfolding parseInt_text [of "Num k"]
      using parseInt_digits(1) [OF decimal_nonempty decimal_digits, of "\<bar>k\<bar>"]
        safe_integer_text [OF a] r v
      by (simp add: to_number_def)
  qed
qed

subsection \<open>Numbers beyond the safe integers, and white space beyond ASCII\<close>

text \<open>
  The number \<open>10^21\<close> prints as \<^verbatim>\<open>1e+21\<close> and is read back as 1; a text of 400 digits
  is beyond the largest double; a no-break space before the digits is skipped.
\<close>

lemma parseInt_1e21: "parseInt (Num 1000000000000000000000) = Num 1"
  by code_simp

lemma parseInt_nbsp:
  "parseInt (Str [char_of (194 :: nat), char_of (160 :: nat), CHR ''4'', CHR ''2'']) = Num 42"
  by code_simp

lemma parseInt_400_digits: "parseInt (Str (replicate 400 CHR ''9'')) = PosInfinity"
  by code_simp

text \<open>So the age \<open>10^21\<close> passes the presence test and is stored as the age 1.\<close>

lemma age_1e21_is_stored_as_1:
  "fst (supabase_POST True 7
          (JsonObject [(''name'', Str ''Ann''), (''email'', Str ''ann@x.com''),
                       (''age'', Num 1000000000000000000000)])
          (seeded 0))
     = \<lparr>status = 200,
        json = User (Some \<lparr>row_id = 5, row_name = ''Ann'', row_email = ''ann@x.com'',
                 row_age = 1, created_at = Some 7, updated_at = Some 7\<rparr>) ''supabase'' ''SQL''\<rparr>"
  by (simp add: supabase_POST_def supabase_POST_answer_def destructure_def field_def
      parseInt_1e21 supabase_insert_def pg_insert_select_def entered_def pg_integer_def
      pg_text_def in_int4_def pg_ok_def pg_fail_def seeded_def first_def Let_def)

subsection \<open>Creating a record with age 0\<close>

text \<open>
  C1. A create request whose body carries the number 0 as its age is answered 400 by both
  create routes, as if the age were missing, and no adapter is called: the document
  backend stores nothing. This is the body the page sends when the age box holds \<open>0\<close>.
\<close>

theorem age_zero_is_answered_as_missing:
  "createUser_body \<lparr>name = ''Ann'', email = ''ann@x.com'', age = ''0''\<rparr>
     = JsonObject [(''name'', Str ''Ann''), (''email'', Str ''ann@x.com''), (''age'', Num 0)]
   \<and> mongodb_POST online iso1 iso2 fresh
        (JsonObject [(''name'', Str ''Ann''), (''email'', Str ''ann@x.com''), (''age'', Num 0)]) w
     = (\<lparr>status = 400, json = Failure ''Name, email, and age are required'' None\<rparr>, w)
   \<and> supabase_POST online now
        (JsonObject [(''name'', Str ''Ann''), (''email'', Str ''ann@x.com''), (''age'', Num 0)]) db
     = (\<lparr>status = 400, json = Failure ''Name, email, and age are required'' None\<rparr>, db)"
  by (simp add: createUser_body_def parseInt_Str_0 mongodb_POST_def supabase_POST_def
      destructure_def field_def)

text \<open>
  Witness for C1: the body the page sends for the age \<open>0\<close>, on a fresh process and on
  the seeded table.
\<close>

theorem age_zero_is_answered_as_missing_witness:
  "mongodb_POST True ''2026-01-01T00:00:00.000Z'' ''2026-01-01T00:00:00.001Z'' 255
     (createUser_body \<lparr>name = ''Ann'', email = ''ann@x.com'', age = ''0''\<rparr>)
     (process_start (\<lambda>c. []))
   = (\<lparr>status = 400, json = Failure ''Name, email, and age are required'' None\<rparr>,
      process_start (\<lambda>c. []))
   \<and> supabase_POST True 7
     (createUser_body \<lparr>name = ''Ann'', email = ''ann@x.com'', age = ''0''\<rparr>) (seeded 0)
   = (\<lparr>status = 400, json = Failure ''Name, email, and age are required'' None\<rparr>, seeded 0)"
  using age_zero_is_answered_as_missing [of True "''2026-01-01T00:00:00.000Z''"
      "''2026-01-01T00:00:00.001Z''" 255 "process_start (\<lambda>c. [])" 7 "seeded 0"]
  by simp

text \<open>
  For comparison, the age 150, and the age 0 sent as text, pass the presence test: the
  relational create is refused by the CHECK constraint of the table and the document
  create stores the record.
\<close>

lemma age_out_of_range_reaches_the_stores:
  "a = Num 150 \<or> a = Str ''150'' \<or> a = Str ''0'' \<Longrightarrow>
   fst (supabase_POST True 7
          (JsonObject [(''name'', Str ''Ann''), (''email'', Str ''ann@x.com''), (''age'', a)])
          (seeded 0))
     = \<lparr>status = 500,
        json = Failure ''Failed to create user in Supabase''
                 (Some (PostgrestError (CheckViolation ''users_age_check'')))\<rparr>
   \<and> fst (mongodb_POST True iso1 iso2 255
          (JsonObject [(''name'', Str ''Ann''), (''email'', Str ''ann@x.com''), (''age'', a)])
          (process_start (\<lambda>c. [])))
     = \<lparr>status = 200,
        json = User (Some [(''_id'', ObjectId 255), (''name'', Str ''Ann''),
                 (''email'', Str ''ann@x.com''), (''age'', parseInt a),
                 (''createdAt'', Str iso1), (''updatedAt'', Str iso2)]) ''mongodb'' ''NoSQL''\<rparr>"
  by (auto simp: supabase_POST_def supabase_POST_answer_def mongodb_POST_def
      mongodb_POST_answer_def destructure_def field_def parseInt_Str_150 parseInt_Str_0
      parseInt_Num supabase_insert_def pg_insert_select_def entered_def pg_integer_def
      pg_text_def in_int4_def pg_fail_def seeded_def insertOne_def getCollection_def init_def
      connectToMongoDB_def mongo_entered_def process_start_def driver_insertOne_def
      documentWithTimestamp_def insertedId_def stored_def driver_findOne_def Let_def)

subsection \<open>Deleting an identity that matches nothing\<close>

lemma remove_first_no_match: "\<forall>x \<in> set xs. \<not> P x \<Longrightarrow> remove_first P xs = xs"
  by (induction xs) auto

lemma filter_no_match: "\<forall>x \<in> set xs. \<not> P x \<Longrightarrow> filter (\<lambda>x. \<not> P x) xs = xs"
  by (induction xs) auto

lemma new_ObjectId_nonempty: "new_ObjectId i = Some n \<Longrightarrow> i \<noteq> []"
  by (auto simp: new_ObjectId_def split: if_splits)

lemma pg_int_literal_nonempty: "pg_int_literal i = Some k \<Longrightarrow> i \<noteq> []"
  by (auto simp: pg_int_literal_def strip_sign_def Let_def split: if_splits)

lemma new_ObjectId_ff: "new_ObjectId ''0000000000000000000000ff'' = Some 255"
  by code_simp

lemma new_ObjectId_abc: "new_ObjectId ''abc'' = None"
  by (simp add: new_ObjectId_def)

lemma pg_int_literal_7: "pg_int_literal ''7'' = Some 7"
  by code_simp

text \<open>
  C2, as amended. With the store answering: for every identity that is a well-formed
  ObjectId text (24 hexadecimal digits) and is the \<^verbatim>\<open>_id\<close> of no stored document, the
  document adapter's \<^verbatim>\<open>deleteOne\<close> returns a deleted-count of 0, the route answers 404 with
  the failure envelope \<open>User not found\<close>, and the collections are as before. For every
  identity that is an integer literal in the BIGINT range and is the id of no stored row,
  the relational adapter's \<^verbatim>\<open>delete\<close> returns nothing and raises nothing, the route
  answers with the success envelope, and the rows are as before; the adapter's result is
  the same on every table state, whether or not a row matches.
\<close>

theorem delete_of_unknown_identity:
  "(new_ObjectId i = Some n
      \<and> ObjectId n \<notin> set (map (\<lambda>e. field e ''_id'') (collections w ''users'')) \<longrightarrow>
      fst (deleteOne True ''users'' i w) = Inr \<lparr>deletedCount = 0\<rparr>
      \<and> fst (mongodb_DELETE True i w) = \<lparr>status = 404, json = Failure ''User not found'' None\<rparr>
      \<and> collections (snd (mongodb_DELETE True i w)) = collections w)
   \<and> (pg_int_literal j = Some k \<and> in_int8 k \<and> k \<notin> set (map row_id (rows db)) \<longrightarrow>
      fst (supabase_delete True ''users'' j db) = Inr ()
      \<and> fst (supabase_DELETE True j db)
          = \<lparr>status = 200, json = Message ''User deleted successfully'' ''supabase'' ''SQL''\<rparr>
      \<and> rows (snd (supabase_DELETE True j db)) = rows db)
   \<and> (pg_int_literal j = Some k \<and> in_int8 k \<longrightarrow>
      fst (supabase_delete True ''users'' j db') = Inr ())"
proof (intro conjI impI)
  assume h: "new_ObjectId i = Some n
    \<and> ObjectId n \<notin> set (map (\<lambda>e. field e ''_id'') (collections w ''users''))"
  then have ne: "i \<noteq> []"
    using new_ObjectId_nonempty by blast
  from h have nm: "\<forall>x \<in> set (collections w ''users''). \<not> field x ''_id'' = ObjectId n"
    by force
  have rf: "remove_first (\<lambda>e. field e ''_id'' = ObjectId n) (collections w ''users'')
      = collections w ''users''"
    using remove_first_no_match [OF nm] .
  show d: "fst (deleteOne True ''users'' i w) = Inr \<lparr>deletedCount = 0\<rparr>"
    using h rf
    by (simp add: deleteOne_def getCollection_def init_def connectToMongoDB_def
        mongo_entered_def driver_deleteOne_def Let_def split: option.splits prod.splits)
  show "fst (mongodb_DELETE True i w) = \<lparr>status = 404, json = Failure ''User not found'' None\<rparr>"
    using d ne by (cases "deleteOne True ''users'' i w") (simp add: mongodb_DELETE_def)
  show "collections (snd (mongodb_DELETE True i w)) = collections w"
    using h rf ne
    by (simp add: mongodb_DELETE_def deleteOne_def getCollection_def init_def
        connectToMongoDB_def mongo_entered_def driver_deleteOne_def Let_def
        split: option.splits prod.splits)
next
  assume h: "pg_int_literal j = Some k \<and> in_int8 k \<and> k \<notin> set (map row_id (rows db))"
  then have ne: "j \<noteq> []"
    using pg_int_literal_nonempty by blast
  from h have "\<forall>x \<in> set (rows db). \<not> row_id x = k"
    by force
  then have rf: "filter (\<lambda>r. row_id r \<noteq> k) (rows db) = rows db"
    by (rule filter_no_match)
  show d: "fst (supabase_delete True ''users'' j db) = Inr ()"
    using h by (simp add: supabase_delete_def pg_delete_eq_def entered_def split: prod.splits)
  show "fst (supabase_DELETE True j db)
      = \<lparr>status = 200, json = Message ''User deleted successfully'' ''supabase'' ''SQL''\<rparr>"
    using d ne by (cases "supabase_delete True ''users'' j db") (simp add: supabase_DELETE_def)
  show "rows (snd (supabase_DELETE True j db)) = rows db"
    using h ne rf
    by (simp add: supabase_DELETE_def supabase_delete_def pg_delete_eq_def entered_def
        split: prod.splits)
next
  assume h: "pg_int_literal j = Some k \<and> in_int8 k"
  show "fst (supabase_delete True ''users'' j db') = Inr ()"
    using h by (simp add: supabase_delete_def pg_delete_eq_def entered_def split: prod.splits)
qed

text \<open>
  Witness for C2: on a fresh process over empty collections the identity
  \<open>0000000000000000000000ff\<close> is answered 404, and on the seeded table the identity \<open>7\<close>
  is answered with the success envelope.
\<close>

theorem delete_of_unknown_identity_witness:
  "new_ObjectId ''0000000000000000000000ff'' = Some 255
   \<and> ObjectId 255 \<notin> set (map (\<lambda>e. field e ''_id'') (collections (process_start (\<lambda>c. [])) ''users''))
   \<and> fst (mongodb_DELETE True ''0000000000000000000000ff'' (process_start (\<lambda>c. [])))
       = \<lparr>status = 404, json = Failure ''User not found'' None\<rparr>
   \<and> pg_int_literal ''7'' = Some 7 \<and> in_int8 7 \<and> 7 \<notin> set (map row_id (rows (seeded 0)))
   \<and> fst (supabase_DELETE True ''7'' (seeded 0))
       = \<lparr>status = 200, json = Message ''User deleted successfully'' ''supabase'' ''SQL''\<rparr>
   \<and> rows (snd (supabase_DELETE True ''7'' (seeded 0))) = rows (seeded 0)
   \<and> fst (supabase_delete True ''users'' ''7'' (seeded 0)) = Inr ()"
  using delete_of_unknown_identity [of "''0000000000000000000000ff''" 255
      "process_start (\<lambda>c. [])" "''7''" 7 "seeded 0" "seeded 0"]
  by (simp add: new_ObjectId_ff pg_int_literal_7 process_start_def seeded_def in_int8_def)

text \<open>
  Counterexample to C2 as stated: the identity \<open>abc\<close> matches no stored document (the
  collections are empty), yet the document route answers 500, not 404.
\<close>

theorem malformed_identity_is_answered_500:
  "fst (mongodb_DELETE True ''abc'' (process_start (\<lambda>c. [])))
     = \<lparr>status = 500,
        json = Failure ''Failed to delete user from MongoDB'' (Some (MongoError BSONError))\<rparr>"
  by (simp add: mongodb_DELETE_def deleteOne_def getCollection_def init_def
      connectToMongoDB_def mongo_entered_def process_start_def new_ObjectId_abc Let_def)

subsection \<open>The user field of the relational create answer\<close>

text \<open>
  C10. Once the adapter's \<^verbatim>\<open>insert\<close> has returned a list, the relational create route
  answers 200 with a success envelope whose user field is the first element of that
  list; for the empty list the answer is still the success envelope, with no user in it.
  The route hands the adapter's outcome to this answer unchanged whenever the three
  fields pass the presence test.
\<close>

theorem supabase_POST_user_is_first_row:
  "supabase_POST_answer (Inr (Some [])) = \<lparr>status = 200, json = User None ''supabase'' ''SQL''\<rparr>
   \<and> supabase_POST_answer (Inr (Some (r # rs)))
       = \<lparr>status = 200, json = User (Some r) ''supabase'' ''SQL''\<rparr>
   \<and> success (json (supabase_POST_answer (Inr (Some []))))
   \<and> (all_truthy (n, e, a) \<longrightarrow>
        supabase_POST online now (JsonObject [(''name'', n), (''email'', e), (''age'', a)]) db
        = (supabase_POST_answer
             (fst (supabase_insert online now ''users'' (NewUser n e (parseInt a)) db)),
           snd (supabase_insert online now ''users'' (NewUser n e (parseInt a)) db)))"
  by (simp add: supabase_POST_answer_def first_def supabase_POST_def destructure_def field_def
      all_truthy_def split: prod.splits)

text \<open>Witness for C10: a create on the empty table answers with the row just stored.\<close>

theorem supabase_POST_user_is_first_row_witness:
  "all_truthy (Str ''Ann'', Str ''ann@x.com'', Str ''40'')
   \<and> supabase_POST True 7
        (JsonObject [(''name'', Str ''Ann''), (''email'', Str ''ann@x.com''), (''age'', Str ''40'')])
        \<lparr>rows = [], seq = 0, supabase_calls = 0\<rparr>
     = (\<lparr>status = 200,
         json = User (Some \<lparr>row_id = 1, row_name = ''Ann'', row_email = ''ann@x.com'',
                 row_age = 40, created_at = Some 7, updated_at = Some 7\<rparr>) ''supabase'' ''SQL''\<rparr>,
        \<lparr>rows = [\<lparr>row_id = 1, row_name = ''Ann'', row_email = ''ann@x.com'', row_age = 40,
                 created_at = Some 7, updated_at = Some 7\<rparr>], seq = 1, supabase_calls = 1\<rparr>)"
  using supabase_POST_user_is_first_row [of _ _ "Str ''Ann''" "Str ''ann@x.com''" "Str ''40''"
      True 7 "\<lparr>rows = [], seq = 0, supabase_calls = 0\<rparr>"]
  by (simp add: all_truthy_def parseInt_Str_40 supabase_insert_def pg_insert_select_def
      entered_def pg_integer_def pg_text_def in_int4_def pg_ok_def pg_fail_def
      supabase_POST_answer_def first_def Let_def)

subsection \<open>Failed round trips in the page\<close>

text \<open>
  C3, as amended. A list, create or delete request that throws (the request itself
  rejects or, for the list request, the answer's body cannot be read) adds one entry to
  the developer console and leaves the users list, the draft, the selected tab and the
  alerts as they were, with the loading flag off. A create or delete request that is
  answered with a non-OK status adds nothing to the console and leaves the same state
  unchanged. No list or delete request ever raises an alert, and a create request raises
  one exactly when a box of the draft is empty, changing nothing else.
\<close>

theorem failed_round_trip_frame:
  "(throws r \<longrightarrow>
      fetchUsers database s r
      = s\<lparr>console := console s @ [''Error fetching users from '' @ backend_name database @ '':''],
          loading := False\<rparr>)
   \<and> (filled (newUser s) \<longrightarrow>
        createUser database s Rejected r2
        = s\<lparr>console := console s @ [''Error creating user in '' @ backend_name database @ '':''],
            loading := False\<rparr>
        \<and> createUser database s (Resolved False b) r2 = s\<lparr>loading := False\<rparr>
        \<and> alerts (createUser database s r1 r2) = alerts s)
   \<and> deleteUser database userId s Rejected r2
       = s\<lparr>console := console s @ [''Error deleting user from '' @ backend_name database @ '':''],
           loading := False\<rparr>
   \<and> deleteUser database userId s (Resolved False b) r2 = s\<lparr>loading := False\<rparr>
   \<and> (\<not> filled (newUser s) \<longrightarrow>
        createUser database s r1 r2 = s\<lparr>alerts := alerts s @ [''Please fill all fields'']\<rparr>)
   \<and> alerts (fetchUsers database s r) = alerts s
   \<and> alerts (deleteUser database userId s r1 r2) = alerts s"
proof -
  have f: "alerts (fetchUsers database t r) = alerts t" for t :: "'a page" and r
    by (cases r rule: throws.cases) (simp_all add: fetchUsers_def console_error_def Let_def)
  have 1: "throws r \<longrightarrow>
      fetchUsers database s r
      = s\<lparr>console := console s @ [''Error fetching users from '' @ backend_name database @ '':''],
          loading := False\<rparr>"
    by (cases r rule: throws.cases) (simp_all add: fetchUsers_def console_error_def Let_def)
  have 2: "filled (newUser s) \<longrightarrow>
        createUser database s Rejected r2
        = s\<lparr>console := console s @ [''Error creating user in '' @ backend_name database @ '':''],
            loading := False\<rparr>
        \<and> createUser database s (Resolved False b) r2 = s\<lparr>loading := False\<rparr>"
    by (simp add: createUser_def filled_def console_error_def Let_def)
  have 3: "filled (newUser s) \<longrightarrow> alerts (createUser database s r1 r2) = alerts s"
    by (cases r1) (simp_all add: createUser_def filled_def console_error_def Let_def f)
  have 4: "deleteUser database userId s Rejected r2
       = s\<lparr>console := console s @ [''Error deleting user from '' @ backend_name database @ '':''],
           loading := False\<rparr>
     \<and> deleteUser database userId s (Resolved False b) r2 = s\<lparr>loading := False\<rparr>"
    by (simp add: deleteUser_def console_error_def Let_def)
  have 5: "\<not> filled (newUser s) \<longrightarrow>
        createUser database s r1 r2 = s\<lparr>alerts := alerts s @ [''Please fill all fields'']\<rparr>"
    by (auto simp add: createUser_def filled_def)
  have 6: "alerts (deleteUser database userId s r1 r2) = alerts s"
    by (cases r1) (simp_all add: deleteUser_def console_error_def Let_def f)
  show ?thesis using 1 2 3 4 5 6 f by blast
qed

text \<open>
  Witness for C3: on the page \<open>shown\<close> a rejected list request and a rejected create
  request are logged and change nothing else; with the email box emptied, the create
  handler only raises the alert.
\<close>

theorem failed_round_trip_frame_witness:
  "throws (Rejected :: row fetched) \<and> filled (newUser shown)
   \<and> fetchUsers supabase shown Rejected
     = shown\<lparr>console := [''Error fetching users from supabase:'']\<rparr>
   \<and> createUser supabase shown Rejected Rejected
     = shown\<lparr>console := [''Error creating user in supabase:'']\<rparr>
   \<and> \<not> filled (newUser (shown\<lparr>newUser := \<lparr>name = ''John'', email = [], age = ''40''\<rparr>\<rparr>))
   \<and> createUser supabase (shown\<lparr>newUser := \<lparr>name = ''John'', email = [], age = ''40''\<rparr>\<rparr>)
        Rejected Rejected
     = shown\<lparr>newUser := \<lparr>name = ''John'', email = [], age = ''40''\<rparr>,
         alerts := [''Please fill all fields'']\<rparr>"
  using failed_round_trip_frame [of Rejected supabase shown Rejected _ Rejected _]
    failed_round_trip_frame [of Rejected supabase
      "shown\<lparr>newUser := \<lparr>name = ''John'', email = [], age = ''40''\<rparr>\<rparr>" Rejected _ Rejected _]
  by (simp add: shown_def filled_def)

text \<open>
  Counterexample to C3 as stated. The draft of \<open>shown\<close> repeats a stored email, so the
  create route answers 500; the page logs nothing and is left exactly as it was. With the
  store not answering, the list route answers 500 as well; the page logs nothing and
  empties its users list.
\<close>

theorem failure_answers_are_not_logged:
  "fst (supabase_POST True 7 (createUser_body (newUser shown)) (seeded 0))
     = \<lparr>status = 500,
        json = Failure ''Failed to create user in Supabase''
                 (Some (PostgrestError (UniqueViolation ''users_email_key'')))\<rparr>
   \<and> createUser supabase shown
        (http (fst (supabase_POST True 7 (createUser_body (newUser shown)) (seeded 0)))) Rejected
     = shown
   \<and> fst (supabase_GET False (seeded 0))
     = \<lparr>status = 500,
        json = Failure ''Failed to fetch users from Supabase''
                 (Some (PostgrestError ConnectionFailure))\<rparr>
   \<and> fetchUsers supabase shown (http (fst (supabase_GET False (seeded 0))))
     = shown\<lparr>users := []\<rparr>
   \<and> users shown \<noteq> []"
  by (simp add: supabase_GET_def supabase_getAll_def pg_select_order_def pg_fail_def pg_ok_def
      http_def createUser_def fetchUsers_def shown_def seeded_def Let_def createUser_body_def
      parseInt_Str_40 parseInt_Num supabase_POST_def destructure_def field_def
      supabase_insert_def pg_insert_select_def entered_def pg_integer_def pg_text_def
      in_int4_def supabase_POST_answer_def)

subsection \<open>Validation in the create routes\<close>

text \<open>
  C6, as amended. For every create request whose body parses to a JSON value other than
  \<^verbatim>\<open>null\<close> and lacks name, email or age, both create routes answer 400 with the failure
  envelope and call no adapter: the store state, call counters included, is unchanged. A
  body that is not JSON or is \<^verbatim>\<open>null\<close> is answered by the \<^verbatim>\<open>catch\<close> block, again
  without an adapter call. A request whose three fields are all truthy goes on to the
  adapter with the age replaced by \<^verbatim>\<open>Number.parseInt(age)\<close>, which is an integral
  number, NaN or an infinity, and the route's answer is the adapter's outcome: nothing at
  the route layer tests a range, and a safe integer (below \<open>2^53\<close> in magnitude) reaches
  the adapter as it is.
\<close>

theorem create_validation:
  "(destructure body = Inr f \<and> some_missing f \<longrightarrow>
      supabase_POST online now body db
      = (\<lparr>status = 400, json = Failure ''Name, email, and age are required'' None\<rparr>, db)
      \<and> mongodb_POST online iso1 iso2 fresh body w
      = (\<lparr>status = 400, json = Failure ''Name, email, and age are required'' None\<rparr>, w))
   \<and> (destructure body = Inl x \<longrightarrow>
      supabase_POST online now body db = (supabase_POST_answer (Inl x), db)
      \<and> mongodb_POST online iso1 iso2 fresh body w = (mongodb_POST_answer (Inl x), w))
   \<and> (destructure body = Inr (n, e, a) \<and> all_truthy (n, e, a) \<longrightarrow>
      supabase_POST online now body db
      = (supabase_POST_answer
           (fst (supabase_insert online now ''users'' (NewUser n e (parseInt a)) db)),
         snd (supabase_insert online now ''users'' (NewUser n e (parseInt a)) db))
      \<and> mongodb_POST online iso1 iso2 fresh body w
      = (mongodb_POST_answer
           (fst (insertOne online iso1 iso2 fresh ''users''
                   [(''name'', n), (''email'', e), (''age'', parseInt a)] w)),
         snd (insertOne online iso1 iso2 fresh ''users''
                   [(''name'', n), (''email'', e), (''age'', parseInt a)] w))
      \<and> (parseInt a = NaN \<or> parseInt a = PosInfinity \<or> parseInt a = NegInfinity
          \<or> (\<exists>k. parseInt a = Num k)))
   \<and> (\<bar>k\<bar> < 9007199254740992 \<longrightarrow> parseInt (Num k) = Num k)"
proof (intro conjI impI)
  assume h: "destructure body = Inr f \<and> some_missing f"
  obtain n e a where f: "f = (n, e, a)"
    by (cases f) auto
  from h f have "\<not> truthy n \<or> \<not> truthy e \<or> \<not> truthy a"
    by (auto simp: some_missing_def)
  with h f show "supabase_POST online now body db
      = (\<lparr>status = 400, json = Failure ''Name, email, and age are required'' None\<rparr>, db)"
    and "mongodb_POST online iso1 iso2 fresh body w
      = (\<lparr>status = 400, json = Failure ''Name, email, and age are required'' None\<rparr>, w)"
    by (simp_all add: supabase_POST_def mongodb_POST_def)
next
  assume h: "destructure body = Inl x"
  then show "supabase_POST online now body db = (supabase_POST_answer (Inl x), db)"
    and "mongodb_POST online iso1 iso2 fresh body w = (mongodb_POST_answer (Inl x), w)"
    by (simp_all add: supabase_POST_def mongodb_POST_def)
next
  assume h: "destructure body = Inr (n, e, a) \<and> all_truthy (n, e, a)"
  then show "supabase_POST online now body db
      = (supabase_POST_answer
           (fst (supabase_insert online now ''users'' (NewUser n e (parseInt a)) db)),
         snd (supabase_insert online now ''users'' (NewUser n e (parseInt a)) db))"
    by (simp add: supabase_POST_def all_truthy_def split: prod.splits)
  from h show "mongodb_POST online iso1 iso2 fresh body w
      = (mongodb_POST_answer
           (fst (insertOne online iso1 iso2 fresh ''users''
                   [(''name'', n), (''email'', e), (''age'', parseInt a)] w)),
         snd (insertOne online iso1 iso2 fresh ''users''
                   [(''name'', n), (''email'', e), (''age'', parseInt a)] w))"
    by (simp add: mongodb_POST_def all_truthy_def split: prod.splits)
  show "parseInt a = NaN \<or> parseInt a = PosInfinity \<or> parseInt a = NegInfinity
      \<or> (\<exists>k. parseInt a = Num k)"
    by (rule parseInt_number)
next
  assume "\<bar>k\<bar> < 9007199254740992"
  then show "parseInt (Num k) = Num k"
    by (rule parseInt_Num)
qed

text \<open>
  Witness for C6: a body without an email is answered 400 and the fresh process is
  untouched; a body that is not JSON is answered 500; a complete body is stored as row 5
  of the seeded table; the age 150 is read as 150.
\<close>

theorem create_validation_witness:
  "destructure (JsonObject [(''name'', Str ''Ann''), (''age'', Str ''40'')])
     = Inr (Str ''Ann'', Undefined, Str ''40'')
   \<and> some_missing (Str ''Ann'', Undefined, Str ''40'')
   \<and> mongodb_POST True ''2026-01-01T00:00:00.000Z'' ''2026-01-01T00:00:00.000Z'' 255
        (JsonObject [(''name'', Str ''Ann''), (''age'', Str ''40'')]) (process_start (\<lambda>c. []))
      = (\<lparr>status = 400, json = Failure ''Name, email, and age are required'' None\<rparr>,
         process_start (\<lambda>c. []))
   \<and> destructure NotJson = Inl SyntaxError
   \<and> supabase_POST True 7 NotJson (seeded 0)
      = (\<lparr>status = 500, json = Failure ''Failed to create user in Supabase'' (Some SyntaxError)\<rparr>,
         seeded 0)
   \<and> destructure
        (JsonObject [(''name'', Str ''Ann''), (''email'', Str ''ann@x.com''), (''age'', Str ''40'')])
     = Inr (Str ''Ann'', Str ''ann@x.com'', Str ''40'')
   \<and> all_truthy (Str ''Ann'', Str ''ann@x.com'', Str ''40'')
   \<and> fst (supabase_POST True 7
        (JsonObject [(''name'', Str ''Ann''), (''email'', Str ''ann@x.com''), (''age'', Str ''40'')])
        (seeded 0))
      = \<lparr>status = 200,
         json = User (Some \<lparr>row_id = 5, row_name = ''Ann'', row_email = ''ann@x.com'',
                 row_age = 40, created_at = Some 7, updated_at = Some 7\<rparr>) ''supabase'' ''SQL''\<rparr>
   \<and> \<bar>150 :: int\<bar> < 9007199254740992
   \<and> parseInt (Num 150) = Num 150"
  using create_validation [of "JsonObject [(''name'', Str ''Ann''), (''age'', Str ''40'')]"
      "(Str ''Ann'', Undefined, Str ''40'')" True 7 "seeded 0"
      "''2026-01-01T00:00:00.000Z''" "''2026-01-01T00:00:00.000Z''" 255 "process_start (\<lambda>c. [])"]
    create_validation [of NotJson _ True 7 "seeded 0" _ _ _ _ SyntaxError]
    create_validation [of
      "JsonObject [(''name'', Str ''Ann''), (''email'', Str ''ann@x.com''), (''age'', Str ''40'')]"
      _ True 7 "seeded 0" _ _ _ _ _ "Str ''Ann''" "Str ''ann@x.com''" "Str ''40''" 150]
  by (simp add: destructure_def field_def some_missing_def all_truthy_def parseInt_Str_40
      supabase_insert_def pg_insert_select_def entered_def pg_integer_def pg_text_def in_int4_def
      pg_ok_def pg_fail_def supabase_POST_answer_def first_def seeded_def Let_def)

text \<open>
  Counterexample to C6 as stated. A \<^verbatim>\<open>null\<close> body has none of the three fields, yet the
  answer is 500, not 400. A body whose age is the text \<open>abc\<close> has all three fields, and
  the document adapter receives and stores NaN as the age, which is no integer.
\<close>

theorem create_with_unreadable_age:
  "fst (supabase_POST True 0 (JsonValue Null) (seeded 0))
     = \<lparr>status = 500, json = Failure ''Failed to create user in Supabase'' (Some TypeError)\<rparr>
   \<and> fst (mongodb_POST True ''2026-01-01T00:00:00.000Z'' ''2026-01-01T00:00:00.000Z'' 255
        (JsonObject [(''name'', Str ''Ann''), (''email'', Str ''ann@x.com''), (''age'', Str ''abc'')])
        (process_start (\<lambda>c. [])))
     = \<lparr>status = 200,
        json = User (Some [(''_id'', ObjectId 255), (''name'', Str ''Ann''),
          (''email'', Str ''ann@x.com''), (''age'', NaN),
          (''createdAt'', Str ''2026-01-01T00:00:00.000Z''),
          (''updatedAt'', Str ''2026-01-01T00:00:00.000Z'')]) ''mongodb'' ''NoSQL''\<rparr>"
  by (simp add: supabase_POST_def destructure_def supabase_POST_answer_def mongodb_POST_def
      mongodb_POST_answer_def field_def parseInt_Str_abc insertOne_def getCollection_def init_def
      connectToMongoDB_def mongo_entered_def process_start_def driver_insertOne_def
      documentWithTimestamp_def insertedId_def stored_def driver_findOne_def Let_def)

subsection \<open>Order of the lists\<close>

lemma descending_rev_sort_key: "descending f (rev (sort_key f xs))"
proof -
  have "sorted (map f (sort_key f xs))"
    by (rule sorted_sort_key)
  then have "sorted_wrt (\<lambda>a b. f a \<le> f b) (sort_key f xs)"
    by (simp only: sorted_map)
  then show ?thesis
    by (simp only: descending_def sorted_wrt_rev)
qed

lemma getCollection_collections: "collections (snd (getCollection online c w)) = collections w"
  by (simp add: getCollection_def init_def connectToMongoDB_def Let_def split: option.splits prod.splits)

lemma getCollection_online: "\<exists>h. fst (getCollection True c w) = Inr h"
  by (simp add: getCollection_def init_def connectToMongoDB_def Let_def split: option.splits prod.splits)

text \<open>
  C5, as amended. For every state of either store, with the store answering, the
  sequence returned by the relational adapter's \<^verbatim>\<open>getAll\<close> and by the document adapter's
  \<^verbatim>\<open>findAll\<close> holds exactly the stored records and is in descending order of the creation
  timestamp, where records with equal timestamps may follow each other: each record's
  timestamp is at least that of every later record (a NULL \<^verbatim>\<open>created_at\<close> counts as
  largest, a missing \<^verbatim>\<open>createdAt\<close> as smallest).
\<close>

theorem lists_are_descending:
  "(\<exists>us. fst (supabase_getAll True ''users'' db) = Inr (Some us)
        \<and> descending created_at_key us \<and> mset us = mset (rows db))
   \<and> (\<exists>ds. fst (findAll True c w) = Inr ds
        \<and> descending createdAt_key ds \<and> mset ds = mset (collections w c))"
proof
  show "\<exists>us. fst (supabase_getAll True ''users'' db) = Inr (Some us)
        \<and> descending created_at_key us \<and> mset us = mset (rows db)"
    by (simp add: supabase_getAll_def pg_select_order_def pg_ok_def descending_rev_sort_key)
  obtain h where h: "fst (getCollection True c (mongo_entered w)) = Inr h"
    using getCollection_online by blast
  have "collections (snd (getCollection True c (mongo_entered w))) = collections w"
    by (simp add: getCollection_collections mongo_entered_def)
  with h show "\<exists>ds. fst (findAll True c w) = Inr ds
        \<and> descending createdAt_key ds \<and> mset ds = mset (collections w c)"
    by (cases "getCollection True c (mongo_entered w)")
      (simp add: findAll_def find_sort_desc_def descending_rev_sort_key)
qed

text \<open>Witness for C5: the seeded table and a collection of one document.\<close>

theorem lists_are_descending_witness:
  "fst (supabase_getAll True ''users'' (seeded 0)) = Inr (Some (rows (seeded 0)))
   \<and> descending created_at_key (rows (seeded 0))
   \<and> fst (findAll True ''users'' ann_stored) = Inr (collections ann_stored ''users'')
   \<and> descending createdAt_key (collections ann_stored ''users'')"
  using lists_are_descending [of "seeded 0" "''users''" ann_stored]
  by (simp add: supabase_getAll_def pg_select_order_def pg_ok_def seeded_def created_at_key_def
      findAll_def getCollection_def init_def mongo_entered_def ann_stored_def find_sort_desc_def)

text \<open>
  Counterexample to C5 as stated: the four rows of the creation script share one
  timestamp, so the list \<^verbatim>\<open>getAll\<close> returns for the seeded table is not strictly
  descending.
\<close>

theorem seeded_rows_tie:
  "fst (supabase_getAll True ''users'' (seeded 0)) = Inr (Some (rows (seeded 0)))
   \<and> \<not> strictly_descending created_at_key (rows (seeded 0))"
  by (simp add: supabase_getAll_def pg_select_order_def pg_ok_def seeded_def created_at_key_def
      strictly_descending_def)

subsection \<open>Inserting a document\<close>

lemma field_update_same: "field (AList.update k v d) k = v"
  by (simp add: field_def update_conv')

lemma field_update_other: "k \<noteq> k' \<Longrightarrow> field (AList.update k v d) k' = field d k'"
  by (simp add: field_def update_conv')

lemma map_of_stored:
  "k \<noteq> ''_id'' \<Longrightarrow> map_of (stored fresh d) k = map_option bson_of (map_of d k)"
  by (simp add: stored_def map_of_map delete_conv')

lemma field_stored_id: "field (stored fresh d) ''_id'' = insertedId fresh d"
  by (simp add: stored_def field_def)

lemma field_stored:
  "k \<noteq> ''_id'' \<Longrightarrow> field d k \<noteq> Undefined \<Longrightarrow> field (stored fresh d) k = field d k"
  using map_of_stored [of k fresh d]
  by (cases "map_of d k"; cases "field d k") (auto simp: field_def)

lemma find_append_new: "\<forall>e \<in> set ds. \<not> P e \<Longrightarrow> P x \<Longrightarrow> find P (ds @ [x]) = Some x"
  by (induction ds) auto

lemma insertOne_succeeds:
  assumes "insertedId fresh (documentWithTimestamp iso1 iso2 d)
             \<notin> set (map (\<lambda>e. field e ''_id'') (collections w c))"
  shows "fst (insertOne True iso1 iso2 fresh c d w)
           = Inr (Some (stored fresh (documentWithTimestamp iso1 iso2 d)))"
    and "collections (snd (insertOne True iso1 iso2 fresh c d w)) c
           = collections w c @ [stored fresh (documentWithTimestamp iso1 iso2 d)]"
    and "driver_findOne (insertedId fresh (documentWithTimestamp iso1 iso2 d))
           (collections (snd (insertOne True iso1 iso2 fresh c d w)) c)
           = Some (stored fresh (documentWithTimestamp iso1 iso2 d))"
proof -
  let ?x = "stored fresh (documentWithTimestamp iso1 iso2 d)"
  let ?i = "insertedId fresh (documentWithTimestamp iso1 iso2 d)"
  obtain h where h: "fst (getCollection True c (mongo_entered w)) = Inr h"
    using getCollection_online by blast
  have cs: "collections (snd (getCollection True c (mongo_entered w))) = collections w"
    by (simp add: getCollection_collections mongo_entered_def)
  have nm: "\<forall>e \<in> set (collections w c). \<not> field e ''_id'' = ?i"
    using assms by force
  have fo: "driver_findOne ?i (collections w c @ [?x]) = Some ?x"
    unfolding driver_findOne_def using nm by (rule find_append_new) (simp add: field_stored_id)
  show 1: "fst (insertOne True iso1 iso2 fresh c d w) = Inr (Some ?x)"
    using h cs assms fo
    by (cases "getCollection True c (mongo_entered w)")
      (simp add: insertOne_def driver_insertOne_def)
  show 2: "collections (snd (insertOne True iso1 iso2 fresh c d w)) c = collections w c @ [?x]"
    using h cs assms
    by (cases "getCollection True c (mongo_entered w)")
      (simp add: insertOne_def driver_insertOne_def)
  show "driver_findOne ?i (collections (snd (insertOne True iso1 iso2 fresh c d w)) c) = Some ?x"
    using fo 2 by simp
qed

lemma stamps_of_stored:
  "field (stored fresh (documentWithTimestamp iso1 iso2 d)) ''createdAt'' = Str iso1"
  "field (stored fresh (documentWithTimestamp iso1 iso2 d)) ''updatedAt'' = Str iso2"
  by (simp_all add: field_stored documentWithTimestamp_def field_update_same field_update_other)

text \<open>
  C7, as amended. For every input document whose identifier is not yet in the
  collection, with the store answering, \<^verbatim>\<open>insertOne\<close> appends one document to the
  collection: it carries that identifier, \<^verbatim>\<open>createdAt\<close> and \<^verbatim>\<open>updatedAt\<close> equal to the
  texts of the two clock reads, and the caller's other fields; reading the collection
  again by that identifier gives this document, and it is what \<^verbatim>\<open>insertOne\<close> returns.
  The identifier is the document's own \<^verbatim>\<open>_id\<close> when it carries one, and otherwise the
  ObjectId the driver generates.
\<close>

theorem insertOne_stamps_and_rereads:
  "insertedId fresh (documentWithTimestamp iso1 iso2 d)
     \<notin> set (map (\<lambda>e. field e ''_id'') (collections w c)) \<longrightarrow>
   (\<exists>x. fst (insertOne True iso1 iso2 fresh c d w) = Inr (Some x)
      \<and> collections (snd (insertOne True iso1 iso2 fresh c d w)) c = collections w c @ [x]
      \<and> field x ''createdAt'' = Str iso1
      \<and> field x ''updatedAt'' = Str iso2
      \<and> field x ''_id'' = insertedId fresh (documentWithTimestamp iso1 iso2 d)
      \<and> (\<forall>k. k \<notin> {''_id'', ''createdAt'', ''updatedAt''} \<longrightarrow>
            map_of x k = map_option bson_of (map_of d k))
      \<and> driver_findOne (insertedId fresh (documentWithTimestamp iso1 iso2 d))
           (collections (snd (insertOne True iso1 iso2 fresh c d w)) c) = Some x)"
proof
  assume a: "insertedId fresh (documentWithTimestamp iso1 iso2 d)
     \<notin> set (map (\<lambda>e. field e ''_id'') (collections w c))"
  let ?x = "stored fresh (documentWithTimestamp iso1 iso2 d)"
  have k: "\<forall>k. k \<notin> {''_id'', ''createdAt'', ''updatedAt''} \<longrightarrow>
            map_of ?x k = map_option bson_of (map_of d k)"
    by (simp add: map_of_stored documentWithTimestamp_def update_conv')
  show "\<exists>x. fst (insertOne True iso1 iso2 fresh c d w) = Inr (Some x)
      \<and> collections (snd (insertOne True iso1 iso2 fresh c d w)) c = collections w c @ [x]
      \<and> field x ''createdAt'' = Str iso1
      \<and> field x ''updatedAt'' = Str iso2
      \<and> field x ''_id'' = insertedId fresh (documentWithTimestamp iso1 iso2 d)
      \<and> (\<forall>k. k \<notin> {''_id'', ''createdAt'', ''updatedAt''} \<longrightarrow>
            map_of x k = map_option bson_of (map_of d k))
      \<and> driver_findOne (insertedId fresh (documentWithTimestamp iso1 iso2 d))
           (collections (snd (insertOne True iso1 iso2 fresh c d w)) c) = Some x"
    using insertOne_succeeds [OF a] stamps_of_stored [of fresh iso1 iso2 d] field_stored_id k
    by (intro exI [of _ ?x]) simp
qed

text \<open>Witness for C7: the first document of a fresh process.\<close>

theorem insertOne_stamps_and_rereads_witness:
  "insertedId 255 (documentWithTimestamp ''2026-01-01T00:00:00.000Z'' ''2026-01-01T00:00:00.001Z''
       [(''name'', Str ''Ann''), (''email'', Str ''ann@x.com''), (''age'', Num 40)])
     \<notin> set (map (\<lambda>e. field e ''_id'') (collections (process_start (\<lambda>c. [])) ''users''))
   \<and> fst (insertOne True ''2026-01-01T00:00:00.000Z'' ''2026-01-01T00:00:00.001Z'' 255 ''users''
        [(''name'', Str ''Ann''), (''email'', Str ''ann@x.com''), (''age'', Num 40)]
        (process_start (\<lambda>c. [])))
     = Inr (Some [(''_id'', ObjectId 255), (''name'', Str ''Ann''), (''email'', Str ''ann@x.com''),
          (''age'', Num 40), (''createdAt'', Str ''2026-01-01T00:00:00.000Z''),
          (''updatedAt'', Str ''2026-01-01T00:00:00.001Z'')])"
  using insertOne_stamps_and_rereads [of 255 "''2026-01-01T00:00:00.000Z''"
      "''2026-01-01T00:00:00.001Z''"
      "[(''name'', Str ''Ann''), (''email'', Str ''ann@x.com''), (''age'', Num 40)]"
      "process_start (\<lambda>c. [])" "''users''"]
  by (simp add: insertOne_def getCollection_def init_def connectToMongoDB_def mongo_entered_def
      process_start_def driver_insertOne_def documentWithTimestamp_def insertedId_def stored_def
      driver_findOne_def field_def Let_def)

text \<open>
  Counterexample to C7 as stated: a document that carries the \<^verbatim>\<open>_id\<close> of a stored
  document is refused by the driver; \<^verbatim>\<open>insertOne\<close> throws and the collection is as before.
\<close>

theorem stored_identifier_is_refused:
  "fst (insertOne True ''2026-01-02T00:00:00.000Z'' ''2026-01-02T00:00:00.001Z'' 256 ''users''
          [(''_id'', ObjectId 255), (''name'', Str ''Eve'')] ann_stored)
     = Inl (MongoError DuplicateKey)
   \<and> collections
        (snd (insertOne True ''2026-01-02T00:00:00.000Z'' ''2026-01-02T00:00:00.001Z'' 256 ''users''
                [(''_id'', ObjectId 255), (''name'', Str ''Eve'')] ann_stored)) ''users''
     = collections ann_stored ''users''"
  by (simp add: insertOne_def getCollection_def init_def mongo_entered_def ann_stored_def
      driver_insertOne_def documentWithTimestamp_def insertedId_def field_def)

lemma insertOne_result:
  assumes "insertOne online iso1 iso2 fresh c d w = (Inr (Some x), w')"
  shows "x = stored fresh (documentWithTimestamp iso1 iso2 d) \<and> x \<in> set (collections w' c)"
proof -
  let ?g = "getCollection online c (mongo_entered w)"
  let ?dw = "documentWithTimestamp iso1 iso2 d"
  obtain r w1 where g: "?g = (r, w1)" by (cases ?g)
  from assms g obtain h where r: "r = Inr h" and on: online
    by (cases r) (auto simp: insertOne_def split: if_splits)
  from on assms g r have a: "insertedId fresh ?dw \<notin> set (map (\<lambda>e. field e ''_id'') (collections w1 c))"
    by (auto simp: insertOne_def driver_insertOne_def split: if_splits)
  then have nm: "\<forall>e \<in> set (collections w1 c). \<not> field e ''_id'' = insertedId fresh ?dw"
    by force
  have fo: "driver_findOne (insertedId fresh ?dw) (collections w1 c @ [stored fresh ?dw])
      = Some (stored fresh ?dw)"
    unfolding driver_findOne_def using nm by (rule find_append_new) (simp add: field_stored_id)
  from on assms g r a fo show ?thesis
    by (auto simp: insertOne_def driver_insertOne_def)
qed

lemma insertOne_first_eval:
  "insertOne True iso1 iso2 fresh ''users'' d (process_start (\<lambda>c. []))
   = (Inr (Some (stored fresh (documentWithTimestamp iso1 iso2 d))),
      \<lparr>cachedClient = Some 1, cachedDb = Some 1, service_db = Some 1, connections = 1,
       collections = (\<lambda>c. [])(''users'' := [stored fresh (documentWithTimestamp iso1 iso2 d)]),
       mongo_calls = 1\<rparr>)"
  by (simp add: insertOne_def getCollection_def init_def connectToMongoDB_def mongo_entered_def
      process_start_def driver_insertOne_def driver_findOne_def field_stored_id Let_def)

text \<open>
  C9. For every input document, the document that \<^verbatim>\<open>insertOne\<close> hands to the driver has
  \<^verbatim>\<open>createdAt\<close> and \<^verbatim>\<open>updatedAt\<close> equal to the adapter's own two clock texts, and it is the
  same whatever \<^verbatim>\<open>createdAt\<close> and \<^verbatim>\<open>updatedAt\<close> the caller put into the input; whenever
  \<^verbatim>\<open>insertOne\<close> returns a document, that document is in the collection and carries the
  adapter's two clock texts.
\<close>

theorem caller_timestamps_are_overwritten:
  "field (documentWithTimestamp iso1 iso2 d) ''createdAt'' = Str iso1
   \<and> field (documentWithTimestamp iso1 iso2 d) ''updatedAt'' = Str iso2
   \<and> map_of (documentWithTimestamp iso1 iso2
               (AList.update ''createdAt'' u (AList.update ''updatedAt'' v d)))
       = map_of (documentWithTimestamp iso1 iso2 d)
   \<and> (insertOne online iso1 iso2 fresh c d w = (Inr (Some x), w') \<longrightarrow>
        field x ''createdAt'' = Str iso1 \<and> field x ''updatedAt'' = Str iso2
        \<and> x \<in> set (collections w' c))"
proof (intro conjI impI)
  show "field (documentWithTimestamp iso1 iso2 d) ''createdAt'' = Str iso1"
    and "field (documentWithTimestamp iso1 iso2 d) ''updatedAt'' = Str iso2"
    by (simp_all add: documentWithTimestamp_def field_update_same field_update_other)
  show "map_of (documentWithTimestamp iso1 iso2
               (AList.update ''createdAt'' u (AList.update ''updatedAt'' v d)))
       = map_of (documentWithTimestamp iso1 iso2 d)"
    by (simp add: documentWithTimestamp_def update_conv' fun_eq_iff)
next
  assume a: "insertOne online iso1 iso2 fresh c d w = (Inr (Some x), w')"
  from insertOne_result [OF a]
  have x: "x = stored fresh (documentWithTimestamp iso1 iso2 d)"
    and m: "x \<in> set (collections w' c)"
    by blast+
  show "field x ''createdAt'' = Str iso1" and "field x ''updatedAt'' = Str iso2"
    unfolding x by (rule stamps_of_stored)+
  show "x \<in> set (collections w' c)"
    by (rule m)
qed

text \<open>
  Witness for C9: a document that arrives with its own \<^verbatim>\<open>createdAt\<close> and \<^verbatim>\<open>updatedAt\<close> is
  stored with the adapter's.
\<close>

theorem caller_timestamps_are_overwritten_witness:
  "insertOne True ''2026-01-01T00:00:00.000Z'' ''2026-01-01T00:00:00.001Z'' 255 ''users''
     [(''createdAt'', Str ''1999''), (''name'', Str ''Ann''), (''updatedAt'', Num 5)]
     (process_start (\<lambda>c. []))
   = (Inr (Some [(''_id'', ObjectId 255), (''createdAt'', Str ''2026-01-01T00:00:00.000Z''),
                 (''name'', Str ''Ann''), (''updatedAt'', Str ''2026-01-01T00:00:00.001Z'')]),
      \<lparr>cachedClient = Some 1, cachedDb = Some 1, service_db = Some 1, connections = 1,
       collections = (\<lambda>c. [])(''users'' :=
         [[(''_id'', ObjectId 255), (''createdAt'', Str ''2026-01-01T00:00:00.000Z''),
           (''name'', Str ''Ann''), (''updatedAt'', Str ''2026-01-01T00:00:00.001Z'')]]),
       mongo_calls = 1\<rparr>)
   \<and> field [(''_id'', ObjectId 255), (''createdAt'', Str ''2026-01-01T00:00:00.000Z''),
            (''name'', Str ''Ann''), (''updatedAt'', Str ''2026-01-01T00:00:00.001Z'')] ''createdAt''
       = Str ''2026-01-01T00:00:00.000Z''"
  using caller_timestamps_are_overwritten [of "''2026-01-01T00:00:00.000Z''"
      "''2026-01-01T00:00:00.001Z''"
      "[(''createdAt'', Str ''1999''), (''name'', Str ''Ann''), (''updatedAt'', Num 5)]"
      _ _ True 255 "''users''" "process_start (\<lambda>c. [])"]
  by (simp add: insertOne_first_eval documentWithTimestamp_def stored_def insertedId_def field_def)

subsection \<open>Duplicate emails\<close>

text \<open>
  C4. With the store answering: a relational create whose email is the email of a stored
  row fails with a constraint error and leaves the rows as they were, whenever the age is
  one the store can read as an integer or as NULL; when the record meets the other
  constraints the error is the violation of the unique index on email. A document create
  whose email is the email of a stored document succeeds, appends the new document with
  that email, and the collection then holds at least two documents with it.
\<close>

theorem duplicate_email:
  "(pg_text (nu_email d) = Some m \<and> m \<in> set (map row_email (rows db))
      \<and> pg_integer (nu_age d) = Inr g \<longrightarrow>
      (\<exists>x. fst (supabase_insert True now ''users'' d db) = Inl (PostgrestError x)
          \<and> is_constraint_error x
          \<and> (pg_text (nu_name d) \<noteq> None \<and> (\<exists>k. g = Some k \<and> 0 < k \<and> k < 150) \<longrightarrow>
               x = UniqueViolation ''users_email_key''))
      \<and> rows (snd (supabase_insert True now ''users'' d db)) = rows db)
   \<and> (field doc ''email'' = v \<and> v \<noteq> Undefined
      \<and> v \<in> set (map (\<lambda>e. field e ''email'') (collections w c))
      \<and> insertedId fresh (documentWithTimestamp iso1 iso2 doc)
           \<notin> set (map (\<lambda>e. field e ''_id'') (collections w c)) \<longrightarrow>
      (\<exists>x. fst (insertOne True iso1 iso2 fresh c doc w) = Inr (Some x)
          \<and> collections (snd (insertOne True iso1 iso2 fresh c doc w)) c = collections w c @ [x]
          \<and> field x ''email'' = v
          \<and> 2 \<le> length (filter (\<lambda>e. field e ''email'' = v)
                  (collections (snd (insertOne True iso1 iso2 fresh c doc w)) c))))"
proof (intro conjI impI)
  assume h: "pg_text (nu_email d) = Some m \<and> m \<in> set (map row_email (rows db))
      \<and> pg_integer (nu_age d) = Inr g"
  then show "\<exists>x. fst (supabase_insert True now ''users'' d db) = Inl (PostgrestError x)
          \<and> is_constraint_error x
          \<and> (pg_text (nu_name d) \<noteq> None \<and> (\<exists>k. g = Some k \<and> 0 < k \<and> k < 150) \<longrightarrow>
               x = UniqueViolation ''users_email_key'')"
    by (auto simp: supabase_insert_def pg_insert_select_def entered_def pg_fail_def Let_def
        split: option.splits)
  from h show "rows (snd (supabase_insert True now ''users'' d db)) = rows db"
    by (auto simp: supabase_insert_def pg_insert_select_def entered_def pg_fail_def Let_def
        split: option.splits)
next
  assume h: "field doc ''email'' = v \<and> v \<noteq> Undefined
      \<and> v \<in> set (map (\<lambda>e. field e ''email'') (collections w c))
      \<and> insertedId fresh (documentWithTimestamp iso1 iso2 doc)
           \<notin> set (map (\<lambda>e. field e ''_id'') (collections w c))"
  let ?x = "stored fresh (documentWithTimestamp iso1 iso2 doc)"
  have a: "insertedId fresh (documentWithTimestamp iso1 iso2 doc)
           \<notin> set (map (\<lambda>e. field e ''_id'') (collections w c))"
    using h by blast
  have e: "field ?x ''email'' = v"
    using h by (simp add: field_stored documentWithTimestamp_def field_update_other)
  from h have "filter (\<lambda>e. field e ''email'' = v) (collections w c) \<noteq> []"
    by (auto simp: filter_empty_conv)
  then have "1 \<le> length (filter (\<lambda>e. field e ''email'' = v) (collections w c))"
    by (cases "filter (\<lambda>e. field e ''email'' = v) (collections w c)") auto
  then have n: "2 \<le> length (filter (\<lambda>e. field e ''email'' = v) (collections w c @ [?x]))"
    using e by simp
  show "\<exists>x. fst (insertOne True iso1 iso2 fresh c doc w) = Inr (Some x)
          \<and> collections (snd (insertOne True iso1 iso2 fresh c doc w)) c = collections w c @ [x]
          \<and> field x ''email'' = v
          \<and> 2 \<le> length (filter (\<lambda>e. field e ''email'' = v)
                  (collections (snd (insertOne True iso1 iso2 fresh c doc w)) c))"
    using insertOne_succeeds(1,2) [OF a] e n by (intro exI [of _ ?x]) simp
qed

text \<open>
  Witness for C4: a second record with John Doe's email is refused by the seeded table,
  and a second document with Ann's email is stored beside the first.
\<close>

theorem duplicate_email_witness:
  "pg_text (nu_email (NewUser (Str ''Eve'') (Str ''john.doe@example.com'') (Num 40)))
     = Some ''john.doe@example.com''
   \<and> ''john.doe@example.com'' \<in> set (map row_email (rows (seeded 0)))
   \<and> pg_integer (nu_age (NewUser (Str ''Eve'') (Str ''john.doe@example.com'') (Num 40)))
     = Inr (Some 40)
   \<and> fst (supabase_insert True 7 ''users''
        (NewUser (Str ''Eve'') (Str ''john.doe@example.com'') (Num 40)) (seeded 0))
     = Inl (PostgrestError (UniqueViolation ''users_email_key''))
   \<and> field [(''name'', Str ''Eve''), (''email'', Str ''ann@x.com''), (''age'', Num 41)] ''email''
     = Str ''ann@x.com''
   \<and> Str ''ann@x.com'' \<in> set (map (\<lambda>e. field e ''email'') (collections ann_stored ''users''))
   \<and> insertedId 256 (documentWithTimestamp ''2026-01-02T00:00:00.000Z'' ''2026-01-02T00:00:00.000Z''
         [(''name'', Str ''Eve''), (''email'', Str ''ann@x.com''), (''age'', Num 41)])
       \<notin> set (map (\<lambda>e. field e ''_id'') (collections ann_stored ''users''))
   \<and> map (\<lambda>e. (field e ''_id'', field e ''email''))
        (collections (snd (insertOne True ''2026-01-02T00:00:00.000Z'' ''2026-01-02T00:00:00.000Z''
           256 ''users'' [(''name'', Str ''Eve''), (''email'', Str ''ann@x.com''), (''age'', Num 41)]
           ann_stored)) ''users'')
     = [(ObjectId 255, Str ''ann@x.com''), (ObjectId 256, Str ''ann@x.com'')]"
  using duplicate_email [of "NewUser (Str ''Eve'') (Str ''john.doe@example.com'') (Num 40)"
      "''john.doe@example.com''" "seeded 0" "Some 40" 7
      "[(''name'', Str ''Eve''), (''email'', Str ''ann@x.com''), (''age'', Num 41)]"
      "Str ''ann@x.com''" ann_stored "''users''" 256
      "''2026-01-02T00:00:00.000Z''" "''2026-01-02T00:00:00.000Z''"]
  by (simp add: pg_text_def pg_integer_def in_int4_def seeded_def ann_stored_def field_def
      insertedId_def documentWithTimestamp_def stored_def insertOne_def getCollection_def
      init_def connectToMongoDB_def mongo_entered_def driver_insertOne_def driver_findOne_def
      supabase_insert_def pg_insert_select_def entered_def pg_fail_def Let_def)

subsection \<open>The cached connection\<close>

lemma perform_connected: "connected w \<Longrightarrow> connected (perform (online, x) w)"
  by (cases x)
    (auto simp: connected_def findAll_def insertOne_def deleteOne_def updateOne_def
      getCollection_def init_def mongo_entered_def Let_def
      split: option.splits prod.splits sum.splits if_splits)

lemma perform_unconnected_online: "unconnected w \<Longrightarrow> connected (perform (True, x) w)"
  by (cases x)
    (auto simp: connected_def unconnected_def findAll_def insertOne_def deleteOne_def
      updateOne_def getCollection_def init_def connectToMongoDB_def mongo_entered_def Let_def
      split: option.splits prod.splits sum.splits if_splits)

lemma perform_unconnected_offline: "unconnected w \<Longrightarrow> unconnected (perform (False, x) w)"
  by (cases x)
    (auto simp: unconnected_def findAll_def insertOne_def deleteOne_def
      updateOne_def getCollection_def init_def connectToMongoDB_def mongo_entered_def Let_def
      split: option.splits prod.splits sum.splits if_splits)

lemma run_connection_state:
  "unconnected w \<or> connected w \<Longrightarrow> unconnected (run xs w) \<or> connected (run xs w)"
proof (induction xs arbitrary: w)
  case Nil
  then show ?case by simp
next
  case (Cons x xs)
  obtain online y where x: "x = (online, y)" by (cases x)
  have "unconnected (perform x w) \<or> connected (perform x w)"
    using Cons.prems perform_connected [of w online y] perform_unconnected_online [of w y]
      perform_unconnected_offline [of w y] x
    by (cases online) auto
  then show ?case using Cons.IH by simp
qed

lemma process_start_unconnected: "unconnected (process_start cs)"
  by (simp add: unconnected_def process_start_def)

text \<open>
  C8. Under sequential execution, after any sequence of adapter operations from the
  start of the process at most one connection has been established. While none has, the
  module caches nothing, an operation during which the server answers establishes the
  first connection and caches the client and database handle, and an operation during
  which it does not leaves the cache empty. Once a connection has been established,
  every further operation (findAll, insertOne, deleteOne, updateOne), whatever its
  outcome, leaves the cached client, the cached database handle and the connection count
  as they are: none reconnects and none tears the connection down.
\<close>

theorem connection_established_at_most_once:
  "connections (run xs (process_start cs)) \<le> 1
   \<and> (connections (run xs (process_start cs)) = 0 \<longrightarrow>
        unconnected (run xs (process_start cs))
        \<and> connected (perform (True, x) (run xs (process_start cs)))
        \<and> unconnected (perform (False, x) (run xs (process_start cs))))
   \<and> (connections (run xs (process_start cs)) = 1 \<longrightarrow>
        connected (run xs (process_start cs))
        \<and> connected (perform (online, x) (run xs (process_start cs))))"
proof -
  let ?w = "run xs (process_start cs)"
  have s: "unconnected ?w \<or> connected ?w"
    using run_connection_state process_start_unconnected by blast
  have u: "connections ?w = 0 \<longrightarrow> unconnected ?w"
    using s by (auto simp: connected_def)
  have c: "connections ?w = 1 \<longrightarrow> connected ?w"
    using s by (auto simp: unconnected_def)
  have "connections ?w \<le> 1"
    using s by (auto simp: connected_def unconnected_def)
  then show ?thesis
    using u c perform_connected perform_unconnected_online perform_unconnected_offline
    by blast
qed

text \<open>
  Witness for C8: a list request while the server is down, then a delete with a malformed
  identity and a list request while it is up, make one connection.
\<close>

theorem connection_established_at_most_once_witness:
  "connections (run [(False, FindAll ''users''), (True, DeleteOne ''users'' ''abc''),
       (True, FindAll ''users'')] (process_start (\<lambda>c. []))) = 1
   \<and> connected (run [(False, FindAll ''users''), (True, DeleteOne ''users'' ''abc''),
       (True, FindAll ''users'')] (process_start (\<lambda>c. [])))
   \<and> connections (run [(False, FindAll ''users'')] (process_start (\<lambda>c. []))) = 0
   \<and> connected (perform (True, FindAll ''users'')
        (run [(False, FindAll ''users'')] (process_start (\<lambda>c. []))))"
  using connection_established_at_most_once [of "[(False, FindAll ''users''),
      (True, DeleteOne ''users'' ''abc''), (True, FindAll ''users'')]" "\<lambda>c. []" _ _]
    connection_established_at_most_once [of "[(False, FindAll ''users'')]" "\<lambda>c. []"
      "FindAll ''users''" _]
  by (simp add: findAll_def deleteOne_def getCollection_def init_def connectToMongoDB_def
      mongo_entered_def process_start_def new_ObjectId_abc Let_def)

end
